theory Spec2Isabelle
  imports Main "HOL-Library.Multiset"
begin

section \<open>Python values used by glm/core.py\<close>

text \<open>
  A Python \<open>str\<close> is a sequence of Unicode code points (numbers up to 0x10FFFF, the
  surrogates included), so \<open>len\<close> is the length of the list. String literals of the
  source are written with \<open>ascii\<close>; the icons the messages start with are given by
  their code point.
\<close>

type_synonym pystr = "nat list"

definition ascii :: "string \<Rightarrow> pystr" where
  "ascii s = map of_char s"

text \<open>The exceptions that can leave a handler.\<close>

datatype exn =
    SystemExit int
  | EOFError
  | ValueError
  | TypeError
  | KeyError pystr
  | AttributeError
  | IOError
  | ConnectionError
  | MissingCredentialsError
  | UnicodeEncodeError

text \<open>Values produced by \<open>r.json()\<close>. An object keeps its items in order, keys distinct.\<close>

datatype json =
    JNull
  | JBool bool
  | JNum int
  | JStr pystr
  | JArr "json list"
  | JObj "(pystr \<times> json) list"

text \<open>Values argparse stores in the namespace: absent option, one string, a word list.\<close>

datatype argval = ANone | AStr pystr | AWords "pystr list"

fun truthy :: "argval \<Rightarrow> bool" where
  "truthy ANone = False"
| "truthy (AStr s) = (s \<noteq> [])"
| "truthy (AWords ws) = (ws \<noteq> [])"

section \<open>Effects\<close>

datatype http_method = GET | POST | PATCH | DELETE

record request =
  meth :: http_method
  url :: pystr
  params :: "(string \<times> pystr) list"
  json_payload :: "(string \<times> argval) list"

record response =
  status_code :: int
  body :: "json option"

text \<open>
  What a handler does to the outside world, in order: \<open>print\<close>, \<open>sys.stdout.write\<close>,
  a line consumed by \<open>input()\<close>, and a call of the \<open>requests\<close> library.
\<close>

datatype event =
    Print pystr
  | Write pystr
  | ReadLine pystr
  | Http request

text \<open>A computation yields its trace and either the exception raised or its value.\<close>

type_synonym 'a io = "event list \<times> (exn + 'a)"

definition ret :: "'a \<Rightarrow> 'a io" where
  "ret x = ([], Inr x)"

definition lift :: "exn + 'a \<Rightarrow> 'a io" where
  "lift r = ([], r)"

definition emit :: "event \<Rightarrow> unit io" where
  "emit e = ([e], Inr ())"

definition raise :: "exn \<Rightarrow> 'a io" where
  "raise e = ([], Inl e)"

definition bnd :: "'a io \<Rightarrow> ('a \<Rightarrow> 'b io) \<Rightarrow> 'b io" where
  "bnd m f =
     (case m of
        (t, Inl e) \<Rightarrow> (t, Inl e)
      | (t, Inr x) \<Rightarrow> (case f x of (t', r) \<Rightarrow> (t @ t', r)))"

definition print :: "pystr \<Rightarrow> unit io" where
  "print s = emit (Print s)"

text \<open>
  The collaborators of the handlers that are not part of core.py: the token store
  (\<open>utils.get_access_token\<close>), the network, the base URL of \<open>config\<close>, the validation
  error formatter of \<open>utils\<close> and the colour libraries.
\<close>

record env =
  get_access_token :: "exn + pystr"
  http :: "request \<Rightarrow> exn + response"
  github_url :: pystr
  parse_validation_error :: "pystr \<Rightarrow> json \<Rightarrow> exn + pystr"
  x256_from_hex :: "json \<Rightarrow> exn + nat"
  text_color :: "json \<Rightarrow> exn + pystr"
  bg :: "nat \<Rightarrow> pystr"
  fg :: "pystr \<Rightarrow> pystr"
  attr :: "nat \<Rightarrow> pystr"
  str_of :: "json \<Rightarrow> pystr"

definition requests :: "env \<Rightarrow> request \<Rightarrow> response io" where
  "requests E rq = ([Http rq], http E rq)"

section \<open>String operations\<close>

text \<open>\<open>' '.join(ws)\<close> and \<open>'\n'.join(ws)\<close>.\<close>

fun join :: "pystr \<Rightarrow> pystr list \<Rightarrow> pystr" where
  "join sep [] = []"
| "join sep [w] = w"
| "join sep (w # v # ws) = w @ sep @ join sep (v # ws)"

text \<open>
  \<open>str.lower\<close> on the ASCII letters. Python also maps upper-case letters outside
  ASCII; none of them becomes one of the letters \<open>n o y e s\<close>, so the comparisons of
  the confirmation loop are not affected.
\<close>

definition lower_cp :: "nat \<Rightarrow> nat" where
  "lower_cp c = (if 65 \<le> c \<and> c \<le> 90 then c + 32 else c)"

definition lower :: "pystr \<Rightarrow> pystr" where
  "lower s = map lower_cp s"

section \<open>delete\<close>

record delete_args =
  d_repo :: pystr
  d_name :: "pystr list"
  d_force :: bool

text \<open>
  The loop \<open>while not args.force\<close> of delete_command, entered when force is not set.
  Standard input is the list of lines still to come; at its end \<open>input()\<close> raises
  EOFError. The value is False for \<open>return\<close> and True for \<open>break\<close>.
\<close>

fun confirm :: "pystr \<Rightarrow> pystr list \<Rightarrow> bool io" where
  "confirm q [] = ([Write q], Inl EOFError)"
| "confirm q (l # ls) =
     (let choice = lower l in
      if choice = [] \<or> choice = ascii ''n'' \<or> choice = ascii ''no''
        then ([Write q, ReadLine l], Inr False)
      else if choice = ascii ''y'' \<or> choice = ascii ''yes''
        then ([Write q, ReadLine l], Inr True)
      else (case confirm q ls of (t, r) \<Rightarrow> (Write q # ReadLine l # t, r)))"

text \<open>The URL of one label, \<open>'{}/repos/{}/labels/{}'\<close>, used by delete and update.\<close>

definition label_url :: "env \<Rightarrow> pystr \<Rightarrow> pystr \<Rightarrow> pystr" where
  "label_url E repo name =
     github_url E @ ascii ''/repos/'' @ repo @ ascii ''/labels/'' @ name"

definition delete_request :: "env \<Rightarrow> delete_args \<Rightarrow> pystr \<Rightarrow> request" where
  "delete_request E args token =
     \<lparr> meth = DELETE,
       url = label_url E (d_repo args) (join (ascii '' '') (d_name args)),
       params = [(''access_token'', token)],
       json_payload = [] \<rparr>"

text \<open>\<open>question + prompt\<close>, the text written before each \<open>input()\<close>.\<close>

definition delete_prompt :: "pystr \<Rightarrow> pystr" where
  "delete_prompt name =
     (0x26D4 # ascii ''  Are you sure you want to delete '' @ [39] @ name @ [39]
        @ ascii ''?'') @ ascii '' [y/N] ''"

text \<open>Lines 200 to 209: the message chosen from the status of the response.\<close>

definition delete_outcome :: "pystr \<Rightarrow> pystr \<Rightarrow> response \<Rightarrow> unit io" where
  "delete_outcome name repo r =
     (if status_code r = 204 then
        print (0x1F5D1 # ascii ''  Label successfully removed'')
      else if status_code r = 404 then
        print (0x1F6AB # ascii ''  The label '' @ [39] @ name @ [39] @ ascii '' doesn''
                 @ [39] @ ascii ''t exist in '' @ repo @ ascii ''.'')
      else
        print (0x274C # ascii ''  Failed to create label.''))"

definition delete_command :: "env \<Rightarrow> pystr list \<Rightarrow> delete_args \<Rightarrow> unit io" where
  "delete_command E stdin args =
     (let name = join (ascii '' '') (d_name args)
      in bnd (if d_force args then ret True else confirm (delete_prompt name) stdin)
           (\<lambda>go.
              if \<not> go then ret ()
              else bnd (lift (get_access_token E)) (\<lambda>token.
                   bnd (requests E (delete_request E args token)) (\<lambda>r.
                   delete_outcome name (d_repo args) r))))"

section \<open>Operations on decoded JSON values\<close>

definition ebind :: "exn + 'a \<Rightarrow> ('a \<Rightarrow> exn + 'b) \<Rightarrow> exn + 'b" where
  "ebind m f = (case m of Inl e \<Rightarrow> Inl e | Inr x \<Rightarrow> f x)"

fun mapM :: "('a \<Rightarrow> exn + 'b) \<Rightarrow> 'a list \<Rightarrow> exn + 'b list" where
  "mapM f [] = Inr []"
| "mapM f (x # xs) = ebind (f x) (\<lambda>y. ebind (mapM f xs) (\<lambda>ys. Inr (y # ys)))"

text \<open>\<open>r.json()\<close>: a body that is not JSON raises ValueError.\<close>

definition r_json :: "response \<Rightarrow> exn + json" where
  "r_json r = (case body r of None \<Rightarrow> Inl ValueError | Some j \<Rightarrow> Inr j)"

text \<open>\<open>len(v)\<close>\<close>

fun py_len :: "json \<Rightarrow> exn + nat" where
  "py_len (JStr s) = Inr (length s)"
| "py_len (JArr xs) = Inr (length xs)"
| "py_len (JObj kvs) = Inr (length kvs)"
| "py_len v = Inl TypeError"

text \<open>\<open>for x in v\<close>: a dict yields its keys, a string its characters.\<close>

fun py_iter :: "json \<Rightarrow> exn + json list" where
  "py_iter (JArr xs) = Inr xs"
| "py_iter (JObj kvs) = Inr (map (\<lambda>kv. JStr (fst kv)) kvs)"
| "py_iter (JStr s) = Inr (map (\<lambda>c. JStr [c]) s)"
| "py_iter v = Inl TypeError"

text \<open>\<open>v[k]\<close> with a string key.\<close>

fun py_getitem :: "json \<Rightarrow> pystr \<Rightarrow> exn + json" where
  "py_getitem (JObj kvs) k =
     (case map_of kvs k of None \<Rightarrow> Inl (KeyError k) | Some v \<Rightarrow> Inr v)"
| "py_getitem v k = Inl TypeError"

text \<open>\<open>v.get(k, d)\<close>: only a dict has the method.\<close>

fun py_get :: "json \<Rightarrow> pystr \<Rightarrow> json \<Rightarrow> exn + json" where
  "py_get (JObj kvs) k d = (case map_of kvs k of None \<Rightarrow> Inr d | Some v \<Rightarrow> Inr v)"
| "py_get v k d = Inl AttributeError"

text \<open>\<open>p in s\<close> for strings: p occurs in s as a contiguous run.\<close>

fun substr :: "pystr \<Rightarrow> pystr \<Rightarrow> bool" where
  "substr p [] = (p = [])"
| "substr p (c # cs) = (take (length p) (c # cs) = p \<or> substr p cs)"

fun py_in :: "pystr \<Rightarrow> json \<Rightarrow> exn + bool" where
  "py_in p (JStr s) = Inr (substr p s)"
| "py_in p (JArr xs) = Inr (JStr p \<in> set xs)"
| "py_in p (JObj kvs) = Inr (p \<in> set (map fst kvs))"
| "py_in p v = Inl TypeError"

text \<open>
  \<open>max(xs, key=len)\<close>: the first item is the candidate; a later item replaces it
  only when its length is strictly greater. An empty sequence raises ValueError.
\<close>

fun max_loop :: "json \<Rightarrow> nat \<Rightarrow> json list \<Rightarrow> exn + json" where
  "max_loop best bl [] = Inr best"
| "max_loop best bl (x # xs) =
     ebind (py_len x) (\<lambda>n. if bl < n then max_loop x n xs else max_loop best bl xs)"

definition py_max_len :: "json list \<Rightarrow> exn + json" where
  "py_max_len xs =
     (case xs of
        [] \<Rightarrow> Inl ValueError
      | x # ys \<Rightarrow> ebind (py_len x) (\<lambda>n. max_loop x n ys))"

text \<open>
  \<open>s.center(w)\<close> with the fill character space, as CPython pads: the left margin
  gets the extra space when both the margin and the width are odd.
\<close>

definition center :: "pystr \<Rightarrow> nat \<Rightarrow> pystr" where
  "center s w =
     (if w \<le> length s then s
      else let marg = w - length s;
               left = marg div 2 + (if odd marg \<and> odd w then 1 else 0)
           in replicate left 32 @ s @ replicate (marg - left) 32)"

section \<open>list\<close>

record list_args =
  l_repo :: pystr
  l_show_colors :: bool

definition labels_url :: "env \<Rightarrow> pystr \<Rightarrow> pystr" where
  "labels_url E repo = github_url E @ ascii ''/repos/'' @ repo @ ascii ''/labels''"

definition list_request :: "env \<Rightarrow> list_args \<Rightarrow> pystr \<Rightarrow> request" where
  "list_request E args token =
     \<lparr> meth = GET, url = labels_url E (l_repo args),
       params = [(''access_token'', token)], json_payload = [] \<rparr>"

text \<open>Line 88: \<open>spacing = len(max([x['name'] for x in res], key=len))\<close>.\<close>

definition list_spacing :: "json \<Rightarrow> exn + nat" where
  "list_spacing res =
     ebind (py_iter res) (\<lambda>rows.
     ebind (mapM (\<lambda>x. py_getitem x (ascii ''name'')) rows) (\<lambda>names.
     ebind (py_max_len names) py_len))"

text \<open>\<open>'{}'.format(c)\<close>: a string as it is, any other value through \<open>str\<close>.\<close>

definition format_value :: "env \<Rightarrow> json \<Rightarrow> pystr" where
  "format_value E c = (case c of JStr s \<Rightarrow> s | _ \<Rightarrow> str_of E c)"

text \<open>
  The body of the loop of lines 89 to 98, up to the text handed to \<open>print\<close>. The
  arguments of \<open>format\<close> are evaluated from left to right; only a string has
  \<open>center\<close>.
\<close>

definition format_row :: "env \<Rightarrow> bool \<Rightarrow> nat \<Rightarrow> json \<Rightarrow> exn + pystr" where
  "format_row E show_colors spacing row =
     ebind (py_getitem row (ascii ''name'')) (\<lambda>name.
     ebind (py_getitem row (ascii ''color'')) (\<lambda>c.
     ebind (x256_from_hex E c) (\<lambda>x.
     ebind (text_color E c) (\<lambda>tc.
     ebind (case name of JStr s \<Rightarrow> Inr (center s spacing) | _ \<Rightarrow> Inl AttributeError)
       (\<lambda>centered.
          Inr (bg E x @ fg E tc @ [32] @ centered @ [32] @ attr E 0 @ [32]
               @ (if show_colors then ascii ''[#'' @ format_value E c @ ascii '']''
                  else [])))))))"

fun print_rows :: "env \<Rightarrow> bool \<Rightarrow> nat \<Rightarrow> json list \<Rightarrow> unit io" where
  "print_rows E show_colors spacing [] = ret ()"
| "print_rows E show_colors spacing (row # rows) =
     bnd (lift (format_row E show_colors spacing row)) (\<lambda>fmt.
     bnd (print fmt) (\<lambda>_. print_rows E show_colors spacing rows))"

definition list_command :: "env \<Rightarrow> list_args \<Rightarrow> unit io" where
  "list_command E args =
     bnd (lift (get_access_token E)) (\<lambda>token.
     bnd (requests E (list_request E args token)) (\<lambda>r.
     bnd (lift (r_json r)) (\<lambda>res.
     bnd (lift (py_len res)) (\<lambda>n.
       if n = 0 then
         bnd (print (0x2757 # ascii ''  No labels found'')) (\<lambda>_. raise (SystemExit 0))
       else
         bnd (lift (list_spacing res)) (\<lambda>spacing.
         bnd (lift (py_iter res)) (\<lambda>rows.
         print_rows E (l_show_colors args) spacing rows))))))"

section \<open>create\<close>

record create_args =
  c_repo :: pystr
  c_name :: "pystr list"
  c_color :: pystr

definition create_request :: "env \<Rightarrow> create_args \<Rightarrow> pystr \<Rightarrow> request" where
  "create_request E args token =
     \<lparr> meth = POST, url = labels_url E (c_repo args),
       params = [(''access_token'', token)],
       json_payload = [(''name'', AStr (join (ascii '' '') (c_name args))),
                       (''color'', AStr (c_color args))] \<rparr>"

text \<open>
  The \<open>else\<close> branch shared by create (lines 146 to 155) and update (lines 250 to
  259); \<open>generic\<close> is the line appended when no error was collected.
\<close>

definition collect_errors :: "env \<Rightarrow> pystr \<Rightarrow> json \<Rightarrow> exn + pystr list" where
  "collect_errors E name res =
     ebind (py_get res (ascii ''message'') (JStr [])) (\<lambda>m.
     ebind (py_in (ascii ''Validation Failed'') m) (\<lambda>v.
       if v then
         ebind (py_get res (ascii ''errors'') (JArr [])) (\<lambda>es.
         ebind (py_iter es) (\<lambda>el.
         mapM (parse_validation_error E name) el))
       else Inr []))"

definition render_failure :: "env \<Rightarrow> pystr \<Rightarrow> pystr \<Rightarrow> response \<Rightarrow> unit io" where
  "render_failure E name generic r =
     bnd (lift (r_json r)) (\<lambda>res.
     bnd (lift (collect_errors E name res)) (\<lambda>errors.
     print (join [10] (if length errors = 0 then errors @ [generic] else errors))))"

definition create_command :: "env \<Rightarrow> create_args \<Rightarrow> unit io" where
  "create_command E args =
     bnd (lift (get_access_token E)) (\<lambda>token.
     bnd (requests E (create_request E args token)) (\<lambda>r.
       if status_code r = 201 then
         print (0x2705 # ascii ''  Label successfully created'')
       else
         render_failure E (join (ascii '' '') (c_name args))
           (0x274C # ascii ''  Failed to create label.'') r))"

section \<open>update\<close>

record update_args =
  u_repo :: pystr
  u_label_name :: "pystr list"
  u_name :: "pystr list option"
  u_color :: "pystr option"

definition name_val :: "update_args \<Rightarrow> argval" where
  "name_val args = (case u_name args of None \<Rightarrow> ANone | Some ws \<Rightarrow> AWords ws)"

definition color_val :: "update_args \<Rightarrow> argval" where
  "color_val args = (case u_color args of None \<Rightarrow> ANone | Some c \<Rightarrow> AStr c)"

text \<open>\<open>vars(args)\<close>: the attributes the four declared arguments set.\<close>

definition vars_update :: "update_args \<Rightarrow> (string \<times> argval) list" where
  "vars_update args =
     [(''repo'', AStr (u_repo args)), (''label_name'', AWords (u_label_name args)),
      (''name'', name_val args), (''color'', color_val args)]"

text \<open>\<open>' '.join(v)\<close> on a stored value; a string is joined character by character.\<close>

fun join_val :: "argval \<Rightarrow> exn + argval" where
  "join_val (AWords ws) = Inr (AStr (join (ascii '' '') ws))"
| "join_val (AStr s) = Inr (AStr (join (ascii '' '') (map (\<lambda>c. [c]) s)))"
| "join_val ANone = Inl TypeError"

text \<open>Lines 239 to 243.\<close>

definition update_payload :: "update_args \<Rightarrow> exn + (string \<times> argval) list" where
  "update_payload args =
     (let payload = filter (\<lambda>kv. fst kv \<in> set [''color'', ''name''] \<and> truthy (snd kv))
                      (vars_update args)
      in case map_of payload ''name'' of
           None \<Rightarrow> Inr payload
         | Some v \<Rightarrow>
             ebind (join_val v) (\<lambda>j.
               Inr (map (\<lambda>kv. if fst kv = ''name'' then (fst kv, j) else kv) payload)))"

definition update_request ::
  "env \<Rightarrow> update_args \<Rightarrow> pystr \<Rightarrow> (string \<times> argval) list \<Rightarrow> request" where
  "update_request E args token payload =
     \<lparr> meth = PATCH,
       url = label_url E (u_repo args) (join (ascii '' '') (u_label_name args)),
       params = [(''access_token'', token)],
       json_payload = payload \<rparr>"

definition update_command :: "env \<Rightarrow> update_args \<Rightarrow> unit io" where
  "update_command E args =
     (if \<not> (truthy (color_val args) \<or> truthy (name_val args)) then
        bnd (print (0x1F6AB # ascii ''  You must pass either a --name and/or --color''))
          (\<lambda>_. raise (SystemExit 1))
      else
        bnd (lift (get_access_token E)) (\<lambda>token.
        bnd (lift (update_payload args)) (\<lambda>payload.
        bnd (requests E (update_request E args token payload)) (\<lambda>r.
          if status_code r = 200 then
            print (0x2705 # ascii ''  Label successfully updated'')
          else
            render_failure E (join (ascii '' '') (u_label_name args))
              (0x274C # ascii ''  Failed to update label.'') r))))"

section \<open>auth and the token file\<close>

text \<open>
  The token file: its text, or None when it does not exist, and whether \<open>open\<close> for
  writing succeeds.
\<close>

record fs =
  token_file :: "pystr option"
  writable :: bool

text \<open>
  The file is opened with \<open>encoding='utf-8'\<close>, and that codec refuses the surrogate
  code points U+D800 to U+DFFF (a lone surrogate is what an argument byte that is not
  UTF-8 becomes in \<open>sys.argv\<close>).
\<close>

definition utf8_encodable :: "pystr \<Rightarrow> bool" where
  "utf8_encodable s = list_all (\<lambda>c. c < 0xD800 \<or> 0xDFFF < c) s"

text \<open>
  \<open>open\<close> for writing truncates the file. \<open>print(args.token, file=f)\<close> writes the token
  and then the newline; when the token cannot be encoded the write raises, nothing has
  reached the file, and neither \<open>close\<close> nor the confirmation is executed.
\<close>

definition auth_command :: "fs \<Rightarrow> pystr \<Rightarrow> fs \<times> unit io" where
  "auth_command F token =
     (if \<not> writable F then (F, raise IOError)
      else if \<not> utf8_encodable token then
        (F\<lparr>token_file := Some []\<rparr>, raise UnicodeEncodeError)
      else (F\<lparr>token_file := Some (token @ [10])\<rparr>,
            print (0x1F680 # ascii ''  Authentication stored!'')))"

text \<open>The code points \<open>str.strip\<close> removes (those with \<open>str.isspace\<close>).\<close>

definition is_space :: "nat \<Rightarrow> bool" where
  "is_space c \<longleftrightarrow>
     (9 \<le> c \<and> c \<le> 13) \<or> (28 \<le> c \<and> c \<le> 32) \<or> c = 133 \<or> c = 160 \<or> c = 5760
     \<or> (8192 \<le> c \<and> c \<le> 8202) \<or> c = 8232 \<or> c = 8233 \<or> c = 8239 \<or> c = 8287
     \<or> c = 12288"

definition strip :: "pystr \<Rightarrow> pystr" where
  "strip s = rev (dropWhile is_space (rev (dropWhile is_space s)))"

text \<open>
  Modelled from the spec: \<open>utils.get_access_token\<close>, the \<open>load\<close> of the token store,
  is not in core.py. The specification gives it as: reads and trims the token; fails
  with MissingCredentialsError if the file does not exist or is empty.
\<close>

definition load :: "fs \<Rightarrow> exn + pystr" where
  "load F =
     (case token_file F of
        None \<Rightarrow> Inl MissingCredentialsError
      | Some text \<Rightarrow> if text = [] then Inl MissingCredentialsError else Inr (strip text))"

section \<open>Vocabulary of the properties\<close>

text \<open>Events by kind: network calls, the confirmation dialogue, printed lines.\<close>

fun is_http :: "event \<Rightarrow> bool" where
  "is_http (Http rq) = True"
| "is_http e = False"

fun is_prompt :: "event \<Rightarrow> bool" where
  "is_prompt (Write s) = True"
| "is_prompt (ReadLine s) = True"
| "is_prompt e = False"

fun is_print :: "event \<Rightarrow> bool" where
  "is_print (Print s) = True"
| "is_print e = False"

text \<open>The dialogue of the confirmation loop over the lines it consumes.\<close>

definition prompts :: "pystr \<Rightarrow> pystr list \<Rightarrow> event list" where
  "prompts q ls = concat (map (\<lambda>l. [Write q, ReadLine l]) ls)"

text \<open>
  The answers equal to \<open>n\<close>, \<open>no\<close> or the empty string, and those equal to \<open>y\<close> or
  \<open>yes\<close>, when the case of the letters is ignored.
\<close>

definition no_answers :: "pystr list" where
  "no_answers = [] # map ascii [''n'', ''N'', ''no'', ''nO'', ''No'', ''NO'']"

definition yes_answers :: "pystr list" where
  "yes_answers =
     map ascii [''y'', ''Y'', ''yes'', ''yeS'', ''yEs'', ''yES'',
                ''Yes'', ''YeS'', ''YEs'', ''YES'']"

text \<open>The name of a row of a list response, when the row is an object with a string name.\<close>

definition name_of :: "json \<Rightarrow> pystr option" where
  "name_of row =
     (case py_getitem row (ascii ''name'') of Inr (JStr n) \<Rightarrow> Some n | _ \<Rightarrow> None)"

definition names_of :: "json list \<Rightarrow> pystr list" where
  "names_of rows = List.map_filter name_of rows"

text \<open>
  The two options of update as the handler tells them apart. \<open>--name\<close> counts when
  argparse stored at least one word for it; a word may be the empty string, as for
  \<open>--name ""\<close>, which is stored as the list of one empty word. \<open>--color\<close> counts when it
  was passed with a string that is not the empty string.
\<close>

definition name_has_words :: "update_args \<Rightarrow> bool" where
  "name_has_words args = (case u_name args of None \<Rightarrow> False | Some ws \<Rightarrow> ws \<noteq> [])"

definition color_not_empty :: "update_args \<Rightarrow> bool" where
  "color_not_empty args = (case u_color args of None \<Rightarrow> False | Some c \<Rightarrow> c \<noteq> [])"

section \<open>Concrete inputs\<close>

text \<open>
  An environment with a stored token over a given network, and the server that answers
  every request with one status and body.
\<close>

definition demo_env :: "(request \<Rightarrow> exn + response) \<Rightarrow> env" where
  "demo_env net =
     \<lparr> get_access_token = Inr (ascii ''t0k3n''),
       http = net,
       github_url = ascii ''https://api.github.com'',
       parse_validation_error = (\<lambda>name e. Inr (name @ ascii '' is invalid'')),
       x256_from_hex = (\<lambda>c. Inr 9),
       text_color = (\<lambda>c. Inr (ascii ''white'')),
       bg = (\<lambda>n. ascii ''<bg>''),
       fg = (\<lambda>s. ascii ''<fg>''),
       attr = (\<lambda>n. ascii ''<reset>''),
       str_of = (\<lambda>j. ascii ''?'') \<rparr>"

definition always :: "int \<Rightarrow> json option \<Rightarrow> request \<Rightarrow> exn + response" where
  "always st b rq = Inr \<lparr> status_code = st, body = b \<rparr>"

definition bug_args :: "bool \<Rightarrow> delete_args" where
  "bug_args f =
     \<lparr> d_repo = ascii ''octo/demo'', d_name = [ascii ''good'', ascii ''bug''],
       d_force = f \<rparr>"

definition bug_label :: create_args where
  "bug_label = \<lparr> c_repo = ascii ''octo/demo'', c_name = [ascii ''good'', ascii ''bug''],
                 c_color = ascii ''ff0000'' \<rparr>"

definition demo_list :: list_args where
  "demo_list = \<lparr> l_repo = ascii ''octo/demo'', l_show_colors = True \<rparr>"

text \<open>The two labels of the end-to-end example of the specification.\<close>

definition label :: "pystr \<Rightarrow> pystr \<Rightarrow> json" where
  "label n c = JObj [(ascii ''name'', JStr n), (ascii ''color'', JStr c)]"

definition two_labels :: "json list" where
  "two_labels = [label (ascii ''bug'') (ascii ''ff0000''),
                 label (ascii ''enhancement'') (ascii ''00ff00'')]"

text \<open>A 422 body: validation failed, with two error entries.\<close>

definition validation_body :: json where
  "validation_body =
     JObj [(ascii ''message'', JStr (ascii ''Validation Failed'')),
           (ascii ''errors'',
            JArr [JObj [(ascii ''field'', JStr (ascii ''name'')),
                        (ascii ''code'', JStr (ascii ''already_exists''))],
                  JObj [(ascii ''field'', JStr (ascii ''color'')),
                        (ascii ''code'', JStr (ascii ''invalid''))]])]"

text \<open>An update of the label \<open>bug\<close> with the given values of \<open>--name\<close> and \<open>--color\<close>.\<close>

definition update_demo :: "pystr list option \<Rightarrow> pystr option \<Rightarrow> update_args" where
  "update_demo n c =
     \<lparr> u_repo = ascii ''octo/demo'', u_label_name = [ascii ''bug''],
       u_name = n, u_color = c \<rparr>"

text \<open>A writable token file holding an earlier token, and a network that is down.\<close>

definition old_fs :: fs where
  "old_fs = \<lparr> token_file = Some (ascii ''old''), writable = True \<rparr>"

definition offline :: "request \<Rightarrow> exn + response" where
  "offline rq = Inl ConnectionError"

text \<open>The error object of a 401.\<close>

definition bad_credentials :: json where
  "bad_credentials = JObj [(ascii ''message'', JStr (ascii ''Bad credentials''))]"

section \<open>Basic facts\<close>

lemmas io_defs = bnd_def ret_def lift_def emit_def raise_def print_def requests_def

lemma confirm_no_http: "filter is_http (fst (confirm q ls)) = []"
  by (induction ls) (auto simp: Let_def split: prod.splits)

lemma lower_cp_iff:
  "lower_cp c = 110 \<longleftrightarrow> c = 110 \<or> c = 78"
  "lower_cp c = 111 \<longleftrightarrow> c = 111 \<or> c = 79"
  "lower_cp c = 121 \<longleftrightarrow> c = 121 \<or> c = 89"
  "lower_cp c = 101 \<longleftrightarrow> c = 101 \<or> c = 69"
  "lower_cp c = 115 \<longleftrightarrow> c = 115 \<or> c = 83"
  by (auto simp: lower_cp_def)

lemma lower_no:
  "(lower l = [] \<or> lower l = ascii ''n'' \<or> lower l = ascii ''no'') \<longleftrightarrow> l \<in> set no_answers"
  by (auto simp: lower_def ascii_def no_answers_def lower_cp_iff map_eq_Cons_conv)

lemma lower_yes:
  "(lower l = ascii ''y'' \<or> lower l = ascii ''yes'') \<longleftrightarrow> l \<in> set yes_answers"
  by (auto simp: lower_def ascii_def yes_answers_def lower_cp_iff map_eq_Cons_conv)

lemma no_yes_disjoint: "l \<in> set no_answers \<Longrightarrow> l \<notin> set yes_answers"
  by (auto simp: no_answers_def yes_answers_def ascii_def)

lemma confirm_step:
  "confirm q (l # ls) =
     (if l \<in> set no_answers then ([Write q, ReadLine l], Inr False)
      else if l \<in> set yes_answers then ([Write q, ReadLine l], Inr True)
      else (Write q # ReadLine l # fst (confirm q ls), snd (confirm q ls)))"
  using lower_no [of l] lower_yes [of l]
  by (simp add: Let_def split: prod.splits)

lemma confirm_junk:
  assumes "\<forall>j \<in> set junk. j \<notin> set no_answers \<and> j \<notin> set yes_answers"
  shows "confirm q (junk @ ls) = (prompts q junk @ fst (confirm q ls), snd (confirm q ls))"
  using assms
  by (induction junk) (simp_all add: prompts_def confirm_step del: confirm.simps)

lemma delete_forced:
  assumes "get_access_token E = Inr token" "d_force args"
  shows "\<exists>t. fst (delete_command E stdin args) = Http (delete_request E args token) # t
            \<and> filter is_http t = [] \<and> filter is_prompt t = []"
  using assms
  by (simp add: delete_command_def Let_def io_defs delete_outcome_def split: sum.splits)

lemma delete_no:
  assumes "\<not> d_force args" "\<forall>j \<in> set junk. j \<notin> set no_answers \<and> j \<notin> set yes_answers"
     "l \<in> set no_answers"
  shows "delete_command E (junk @ l # rest) args =
           (prompts (delete_prompt (join (ascii '' '') (d_name args))) (junk @ [l]), Inr ())"
  using assms
  by (simp add: delete_command_def Let_def confirm_junk confirm_step prompts_def
        bnd_def ret_def del: confirm.simps)

lemma delete_yes:
  assumes "get_access_token E = Inr token"
    "\<not> d_force args" "\<forall>j \<in> set junk. j \<notin> set no_answers \<and> j \<notin> set yes_answers"
     "l \<in> set yes_answers"
  shows "\<exists>t. fst (delete_command E (junk @ l # rest) args) =
           prompts (delete_prompt (join (ascii '' '') (d_name args))) (junk @ [l])
             @ Http (delete_request E args token) # t \<and> filter is_http t = [] \<and> filter is_prompt t = []"
  using assms no_yes_disjoint [of l]
  by (auto simp add: delete_command_def Let_def confirm_junk confirm_step prompts_def
        io_defs delete_outcome_def simp del: confirm.simps split: sum.splits)

lemma delete_other:
  assumes "\<not> d_force args" "l \<notin> set no_answers" "l \<notin> set yes_answers"
  shows "delete_command E (l # ls) args =
          (prompts (delete_prompt (join (ascii '' '') (d_name args))) [l] @ fst (delete_command E ls args),
           snd (delete_command E ls args))"
  using assms
  by (auto simp add: delete_command_def Let_def confirm_step prompts_def
        bnd_def simp del: confirm.simps split: sum.splits prod.splits)

lemma prompts_no_http: "filter is_http (prompts q ls) = []"
  by (induction ls) (simp_all add: prompts_def)

lemma demo_token: "get_access_token (demo_env net) = Inr (ascii ''t0k3n'')"
  by (simp add: demo_env_def)

lemma answers_simps:
  "ascii ''NO'' \<in> set no_answers" "ascii ''Yes'' \<in> set yes_answers"
  "ascii ''maybe'' \<notin> set no_answers" "ascii ''maybe'' \<notin> set yes_answers"
  by (simp_all add: no_answers_def yes_answers_def ascii_def)

lemma delete_reached:
  assumes "get_access_token E = Inr token"
      and "http E (delete_request E args token) = Inr r"
      and "filter is_http (fst (delete_command E stdin args)) \<noteq> []"
  shows "\<exists>t. filter is_http t = []
            \<and> delete_command E stdin args =
                (t @ Http (delete_request E args token)
                     # fst (delete_outcome (join (ascii '' '') (d_name args)) (d_repo args) r),
                 Inr ())"
proof (cases "d_force args")
  case True
  with assms(1,2) show ?thesis
    by (simp add: delete_command_def Let_def io_defs delete_outcome_def)
next
  case False
  obtain t x where c: "confirm (delete_prompt (join (ascii '' '') (d_name args))) stdin = (t, x)"
    by (cases "confirm (delete_prompt (join (ascii '' '') (d_name args))) stdin")
  have nohttp: "filter is_http t = []"
    using confirm_no_http [of "delete_prompt (join (ascii '' '') (d_name args))" stdin] c
    by simp
  have "x = Inr True"
  proof (rule ccontr)
    assume "x \<noteq> Inr True"
    then have "fst (delete_command E stdin args) = t"
      using False c
      by (cases x) (auto simp: delete_command_def Let_def bnd_def ret_def)
    with nohttp assms(3) show False by simp
  qed
  with nohttp show ?thesis
    using assms(1,2) False c
    by (simp add: delete_command_def Let_def io_defs delete_outcome_def)
qed

text \<open>The rendering of a failure, and the steps of create.\<close>

lemma render_failure_undecoded:
  "body r = None \<Longrightarrow> render_failure E name generic r = ([], Inl ValueError)"
  by (simp add: render_failure_def r_json_def io_defs)

lemma render_failure_raises:
  "body r = Some res \<Longrightarrow> collect_errors E name res = Inl e \<Longrightarrow>
     render_failure E name generic r = ([], Inl e)"
  by (simp add: render_failure_def r_json_def io_defs)

lemma render_failure_generic:
  "body r = Some res \<Longrightarrow> collect_errors E name res = Inr [] \<Longrightarrow>
     render_failure E name generic r = ([Print generic], Inr ())"
  by (simp add: render_failure_def r_json_def io_defs)

lemma render_failure_lines:
  "body r = Some res \<Longrightarrow> collect_errors E name res = Inr ls \<Longrightarrow> ls \<noteq> [] \<Longrightarrow>
     render_failure E name generic r = ([Print (join [10] ls)], Inr ())"
  by (simp add: render_failure_def r_json_def io_defs)

lemma create_run:
  assumes "get_access_token E = Inr token"
      and "http E (create_request E args token) = Inr r"
  shows "create_command E args =
           (if status_code r = 201 then
              ([Http (create_request E args token),
                Print (0x2705 # ascii ''  Label successfully created'')], Inr ())
            else
              (Http (create_request E args token)
                 # fst (render_failure E (join (ascii '' '') (c_name args))
                          (0x274C # ascii ''  Failed to create label.'') r),
               snd (render_failure E (join (ascii '' '') (c_name args))
                          (0x274C # ascii ''  Failed to create label.'') r)))"
  using assms
  by (simp add: create_command_def io_defs split: prod.splits sum.splits)

text \<open>The steps of update.\<close>

lemma update_payload_eq:
  "update_payload args =
     Inr ((case u_name args of
             None \<Rightarrow> []
           | Some ws \<Rightarrow> if ws \<noteq> [] then [(''name'', AStr (join (ascii '' '') ws))] else [])
          @ (case u_color args of
               None \<Rightarrow> []
             | Some c \<Rightarrow> if c \<noteq> [] then [(''color'', AStr c)] else []))"
  by (simp add: update_payload_def vars_update_def name_val_def color_val_def ebind_def
        split: option.splits)

lemma update_usage:
  assumes "\<not> name_has_words args" and "\<not> color_not_empty args"
  shows "update_command E args =
           ([Print (0x1F6AB # ascii ''  You must pass either a --name and/or --color'')],
            Inl (SystemExit 1))"
  using assms
  by (simp add: update_command_def name_has_words_def color_not_empty_def name_val_def color_val_def io_defs
        split: option.splits)

lemma update_run:
  assumes "name_has_words args \<or> color_not_empty args"
      and "get_access_token E = Inr token"
      and "update_payload args = Inr p"
  shows "update_command E args =
           (case http E (update_request E args token p) of
              Inl e \<Rightarrow> ([Http (update_request E args token p)], Inl e)
            | Inr r \<Rightarrow>
                if status_code r = 200 then
                  ([Http (update_request E args token p),
                    Print (0x2705 # ascii ''  Label successfully updated'')], Inr ())
                else
                  (Http (update_request E args token p)
                     # fst (render_failure E (join (ascii '' '') (u_label_name args))
                              (0x274C # ascii ''  Failed to update label.'') r),
                   snd (render_failure E (join (ascii '' '') (u_label_name args))
                              (0x274C # ascii ''  Failed to update label.'') r)))"
proof -
  have "truthy (color_val args) \<or> truthy (name_val args)"
    using assms(1)
    by (auto simp: name_has_words_def color_not_empty_def name_val_def color_val_def split: option.splits)
  then show ?thesis
    using assms(2,3)
    by (simp add: update_command_def io_defs split: prod.splits sum.splits)
qed

lemma render_failure_no_http:
  "filter is_http (fst (render_failure E name generic r)) = []"
  by (simp add: render_failure_def r_json_def io_defs split: option.splits sum.splits)

lemma update_one_request:
  assumes "name_has_words args \<or> color_not_empty args"
      and "get_access_token E = Inr token"
      and "update_payload args = Inr p"
  shows "\<exists>t. fst (update_command E args) = Http (update_request E args token p) # t
            \<and> filter is_http t = []"
  using render_failure_no_http
  by (simp add: update_run [OF assms] split: sum.splits)

section \<open>The confirmation of delete\<close>

text \<open>
  C1. With a stored token: when the force flag is set, delete issues exactly one
  request and its trace has no prompt. When force is not set and the lines typed are
  some answers that are neither yes nor no, followed by a line equal to \<open>n\<close>, \<open>no\<close> or
  the empty string up to the case of its letters, the handler returns after that line,
  having prompted once per line, with no request. When that line is equal to \<open>y\<close> or
  \<open>yes\<close> up to case, the request follows the dialogue, it is a DELETE, and it is the
  only one. A line that is neither is answered by one more prompt: the handler goes on
  as it would on the remaining lines. The answers listed as no and as yes are exactly
  the lines whose lower-case form is one of the strings the loop compares with.
\<close>

theorem delete_confirmation:
  assumes "get_access_token E = Inr token"
  shows
    "(d_force args \<longrightarrow>
        filter is_http (fst (delete_command E stdin args)) = [Http (delete_request E args token)]
        \<and> filter is_prompt (fst (delete_command E stdin args)) = [])
     \<and> (\<not> d_force args \<and> (\<forall>j \<in> set junk. j \<notin> set no_answers \<and> j \<notin> set yes_answers)
          \<and> l \<in> set no_answers \<longrightarrow>
        delete_command E (junk @ l # rest) args =
          (prompts (delete_prompt (join (ascii '' '') (d_name args))) (junk @ [l]), Inr ())
        \<and> filter is_http (fst (delete_command E (junk @ l # rest) args)) = [])
     \<and> (\<not> d_force args \<and> (\<forall>j \<in> set junk. j \<notin> set no_answers \<and> j \<notin> set yes_answers)
          \<and> l \<in> set yes_answers \<longrightarrow>
        (\<exists>t. fst (delete_command E (junk @ l # rest) args) =
               prompts (delete_prompt (join (ascii '' '') (d_name args))) (junk @ [l])
                 @ Http (delete_request E args token) # t
             \<and> filter is_http t = [] \<and> filter is_prompt t = [])
        \<and> meth (delete_request E args token) = DELETE)
     \<and> (\<not> d_force args \<and> l \<notin> set no_answers \<and> l \<notin> set yes_answers \<longrightarrow>
        delete_command E (l # rest) args =
          (prompts (delete_prompt (join (ascii '' '') (d_name args))) [l]
             @ fst (delete_command E rest args),
           snd (delete_command E rest args)))
     \<and> (l \<in> set no_answers \<longleftrightarrow>
          lower l = [] \<or> lower l = ascii ''n'' \<or> lower l = ascii ''no'')
     \<and> (l \<in> set yes_answers \<longleftrightarrow> lower l = ascii ''y'' \<or> lower l = ascii ''yes'')"
proof -
  have forced: "d_force args \<Longrightarrow>
        filter is_http (fst (delete_command E stdin args)) = [Http (delete_request E args token)]
        \<and> filter is_prompt (fst (delete_command E stdin args)) = []"
    using delete_forced [OF assms, of args stdin] by auto
  have no: "\<not> d_force args \<Longrightarrow> \<forall>j \<in> set junk. j \<notin> set no_answers \<and> j \<notin> set yes_answers
        \<Longrightarrow> l \<in> set no_answers \<Longrightarrow>
        delete_command E (junk @ l # rest) args =
          (prompts (delete_prompt (join (ascii '' '') (d_name args))) (junk @ [l]), Inr ())
        \<and> filter is_http (fst (delete_command E (junk @ l # rest) args)) = []"
    using delete_no [of args junk l E rest] by (simp add: prompts_no_http)
  have yes: "\<not> d_force args \<Longrightarrow> \<forall>j \<in> set junk. j \<notin> set no_answers \<and> j \<notin> set yes_answers
        \<Longrightarrow> l \<in> set yes_answers \<Longrightarrow>
        (\<exists>t. fst (delete_command E (junk @ l # rest) args) =
               prompts (delete_prompt (join (ascii '' '') (d_name args))) (junk @ [l])
                 @ Http (delete_request E args token) # t
             \<and> filter is_http t = [] \<and> filter is_prompt t = [])"
    using delete_yes [OF assms, of args junk l rest] by simp
  have m: "meth (delete_request E args token) = DELETE"
    by (simp add: delete_request_def)
  have other: "\<not> d_force args \<Longrightarrow> l \<notin> set no_answers \<Longrightarrow> l \<notin> set yes_answers \<Longrightarrow>
        delete_command E (l # rest) args =
          (prompts (delete_prompt (join (ascii '' '') (d_name args))) [l]
             @ fst (delete_command E rest args),
           snd (delete_command E rest args))"
    using delete_other [of args l E rest] by simp
  note spellings = lower_no [of l, symmetric] lower_yes [of l, symmetric]
  from forced no yes m other spellings show ?thesis by blast
qed

theorem delete_confirmation_witness:
  "filter is_http (fst (delete_command (demo_env (always 204 None)) [] (bug_args True)))
     = [Http (delete_request (demo_env (always 204 None)) (bug_args True) (ascii ''t0k3n''))]
   \<and> filter is_prompt (fst (delete_command (demo_env (always 204 None)) [] (bug_args True))) = []
   \<and> delete_command (demo_env (always 204 None)) [ascii ''maybe'', ascii ''NO'', ascii ''y'']
        (bug_args False)
      = (prompts (delete_prompt (ascii ''good bug'')) [ascii ''maybe'', ascii ''NO''], Inr ())
   \<and> (\<exists>t. fst (delete_command (demo_env (always 204 None)) [ascii ''maybe'', ascii ''Yes'']
               (bug_args False))
          = prompts (delete_prompt (ascii ''good bug'')) [ascii ''maybe'', ascii ''Yes'']
            @ Http (delete_request (demo_env (always 204 None)) (bug_args False) (ascii ''t0k3n'')) # t)
   \<and> delete_command (demo_env (always 204 None)) [ascii ''maybe'', ascii ''NO''] (bug_args False)
      = (prompts (delete_prompt (ascii ''good bug'')) [ascii ''maybe'']
           @ fst (delete_command (demo_env (always 204 None)) [ascii ''NO''] (bug_args False)),
         snd (delete_command (demo_env (always 204 None)) [ascii ''NO''] (bug_args False)))"
proof -
  have name: "join (ascii '' '') (d_name (bug_args f)) = ascii ''good bug''" for f
    by (simp add: bug_args_def ascii_def)
  have force: "d_force (bug_args f) = f" for f
    by (simp add: bug_args_def)
  note T = delete_confirmation [OF demo_token]
  show ?thesis
    using T [of "bug_args True" "always 204 None" "[]" "[]" "[]" "[]"]
      T [of "bug_args False" "always 204 None" "[]" "[ascii ''maybe'']" "ascii ''NO''"
        "[ascii ''y'']"]
      T [of "bug_args False" "always 204 None" "[]" "[ascii ''maybe'']" "ascii ''Yes''" "[]"]
      T [of "bug_args False" "always 204 None" "[]" "[]" "ascii ''maybe''" "[ascii ''NO'']"]
    by (simp add: answers_simps name force) blast
qed

section \<open>The options of update\<close>

text \<open>
  C2, amended. An invocation of update in which \<open>--name\<close> is not provided (no word is
  stored for it) and \<open>--color\<close> is not provided or is the empty string prints the usage
  error, leaves with exit code 1 and issues no request. When \<open>--name\<close> is provided,
  with at least one word, which may be the empty string as in \<open>--name ""\<close>, or
  \<open>--color\<close> is provided with a string that is not empty, and a token is stored, the
  handler goes on to the PATCH request, the only request of the invocation.
\<close>

theorem update_needs_a_value:
  "(\<not> name_has_words args \<and> \<not> color_not_empty args \<longrightarrow>
      update_command E args =
        ([Print (0x1F6AB # ascii ''  You must pass either a --name and/or --color'')],
         Inl (SystemExit 1))
      \<and> filter is_http (fst (update_command E args)) = [])
   \<and> ((name_has_words args \<or> color_not_empty args) \<and> get_access_token E = Inr token \<longrightarrow>
      (\<exists>p t. update_payload args = Inr p
            \<and> fst (update_command E args) = Http (update_request E args token p) # t
            \<and> meth (update_request E args token p) = PATCH
            \<and> filter is_http t = []))"
proof -
  have usage: "\<not> name_has_words args \<and> \<not> color_not_empty args \<longrightarrow>
      update_command E args =
        ([Print (0x1F6AB # ascii ''  You must pass either a --name and/or --color'')],
         Inl (SystemExit 1))
      \<and> filter is_http (fst (update_command E args)) = []"
    by (simp add: update_usage)
  have patch: "(name_has_words args \<or> color_not_empty args) \<and> get_access_token E = Inr token
      \<longrightarrow> (\<exists>p t. update_payload args = Inr p
            \<and> fst (update_command E args) = Http (update_request E args token p) # t
            \<and> meth (update_request E args token p) = PATCH
            \<and> filter is_http t = [])"
  proof (intro impI, elim conjE)
    assume g: "name_has_words args \<or> color_not_empty args"
       and t: "get_access_token E = Inr token"
    obtain p where p: "update_payload args = Inr p"
      using update_payload_eq by blast
    obtain tr where "fst (update_command E args) = Http (update_request E args token p) # tr"
      "filter is_http tr = []"
      using update_one_request [OF g t p] by blast
    moreover have "meth (update_request E args token p) = PATCH"
      by (simp add: update_request_def)
    ultimately show "\<exists>p t. update_payload args = Inr p
            \<and> fst (update_command E args) = Http (update_request E args token p) # t
            \<and> meth (update_request E args token p) = PATCH
            \<and> filter is_http t = []"
      using p by blast
  qed
  from usage patch show ?thesis by blast
qed

theorem update_needs_a_value_witness:
  "update_command (demo_env (always 200 None)) (update_demo None None) =
     ([Print (0x1F6AB # ascii ''  You must pass either a --name and/or --color'')],
      Inl (SystemExit 1))
   \<and> (\<exists>p t. update_payload (update_demo None (Some (ascii ''00ff00''))) = Inr p
         \<and> fst (update_command (demo_env (always 200 None))
                   (update_demo None (Some (ascii ''00ff00''))))
           = Http (update_request (demo_env (always 200 None))
                     (update_demo None (Some (ascii ''00ff00''))) (ascii ''t0k3n'') p) # t)
   \<and> (\<exists>p t. update_payload (update_demo (Some [ascii '''']) None) = Inr p
         \<and> fst (update_command (demo_env (always 200 None)) (update_demo (Some [ascii '''']) None))
           = Http (update_request (demo_env (always 200 None))
                     (update_demo (Some [ascii '''']) None) (ascii ''t0k3n'') p) # t)"
proof -
  have g: "\<not> name_has_words (update_demo None c)" "\<not> color_not_empty (update_demo n None)"
    "color_not_empty (update_demo n (Some (ascii ''00ff00'')))"
    "name_has_words (update_demo (Some [ascii '''']) c)" for n c
    by (simp_all add: name_has_words_def color_not_empty_def update_demo_def ascii_def)
  have a: "update_command (demo_env (always 200 None)) (update_demo None None) =
     ([Print (0x1F6AB # ascii ''  You must pass either a --name and/or --color'')],
      Inl (SystemExit 1))"
    using update_needs_a_value [of "update_demo None None" "demo_env (always 200 None)"]
    by (simp add: g)
  have b: "\<exists>p t. update_payload (update_demo None (Some (ascii ''00ff00''))) = Inr p
         \<and> fst (update_command (demo_env (always 200 None))
                   (update_demo None (Some (ascii ''00ff00''))))
           = Http (update_request (demo_env (always 200 None))
                     (update_demo None (Some (ascii ''00ff00''))) (ascii ''t0k3n'') p) # t"
    using update_needs_a_value [of "update_demo None (Some (ascii ''00ff00''))"
        "demo_env (always 200 None)" "ascii ''t0k3n''"]
    by (simp add: g demo_token) blast
  have c: "\<exists>p t. update_payload (update_demo (Some [ascii '''']) None) = Inr p
         \<and> fst (update_command (demo_env (always 200 None)) (update_demo (Some [ascii '''']) None))
           = Http (update_request (demo_env (always 200 None))
                     (update_demo (Some [ascii '''']) None) (ascii ''t0k3n'') p) # t"
    using update_needs_a_value [of "update_demo (Some [ascii '''']) None"
        "demo_env (always 200 None)" "ascii ''t0k3n''"]
    by (simp add: g demo_token) blast
  from a b c show ?thesis by blast
qed

text \<open>
  With \<open>--color ""\<close> and no \<open>--name\<close> the option is provided, and still the handler
  prints the usage error and exits with code 1 without a request.
\<close>

theorem update_empty_color_counterexample:
  "u_color (update_demo None (Some [])) \<noteq> None
   \<and> update_command (demo_env (always 200 None)) (update_demo None (Some [])) =
       ([Print (0x1F6AB # ascii ''  You must pass either a --name and/or --color'')],
        Inl (SystemExit 1))"
  by (simp add: update_command_def update_demo_def name_val_def color_val_def io_defs)

section \<open>The width of the name column\<close>

lemma Max_insert_twice:
  "finite S \<Longrightarrow> Max (insert a (insert b S)) = Max (insert (max a b) S)"
  by (cases "S = {}") (simp_all add: max.assoc)

lemma max_loop_names:
  "\<exists>m. max_loop (JStr b) (length b) (map JStr ns) = Inr (JStr m)
       \<and> length m = Max (insert (length b) (length ` set ns))"
proof (induction ns arbitrary: b)
  case Nil
  then show ?case by simp
next
  case (Cons n ns)
  show ?case
  proof (cases "length b < length n")
    case True
    from Cons.IH [of n] obtain m where
      m: "max_loop (JStr n) (length n) (map JStr ns) = Inr (JStr m)"
         "length m = Max (insert (length n) (length ` set ns))"
      by blast
    have "Max (insert (length b) (length ` set (n # ns)))
            = Max (insert (length n) (length ` set ns))"
      using True by (simp add: Max_insert_twice max.absorb2 del: Max_insert)
    with m True show ?thesis by (simp add: ebind_def)
  next
    case False
    from Cons.IH [of b] obtain m where
      m: "max_loop (JStr b) (length b) (map JStr ns) = Inr (JStr m)"
         "length m = Max (insert (length b) (length ` set ns))"
      by blast
    have "Max (insert (length b) (length ` set (n # ns)))
            = Max (insert (length b) (length ` set ns))"
      using False by (simp add: Max_insert_twice max.absorb1 del: Max_insert)
    with m False show ?thesis by (simp add: ebind_def)
  qed
qed

lemma name_of_Some:
  "name_of row = Some n \<Longrightarrow> py_getitem row (ascii ''name'') = Inr (JStr n)"
  by (auto simp: name_of_def split: sum.splits json.splits)

lemma names_of_Cons:
  "name_of row = Some n \<Longrightarrow> names_of (row # rows) = n # names_of rows"
  by (simp add: names_of_def)

lemma set_names_of: "set (names_of rows) = {n. \<exists>row \<in> set rows. name_of row = Some n}"
  by (force simp: names_of_def map_filter_def)

lemma mapM_names:
  "\<forall>row \<in> set rows. name_of row \<noteq> None \<Longrightarrow>
     mapM (\<lambda>x. py_getitem x (ascii ''name'')) rows = Inr (map JStr (names_of rows))"
proof (induction rows)
  case Nil
  then show ?case by (simp add: names_of_def)
next
  case (Cons row rows)
  then obtain n where n: "name_of row = Some n" by auto
  with Cons show ?case
    by (simp add: name_of_Some names_of_Cons ebind_def)
qed

lemma list_spacing_Max:
  assumes "rows \<noteq> []" and "\<forall>row \<in> set rows. name_of row \<noteq> None"
  shows "list_spacing (JArr rows) = Inr (Max (length ` set (names_of rows)))"
proof -
  from assms obtain row rest where rows: "rows = row # rest" by (cases rows) auto
  with assms(2) obtain n where n: "name_of row = Some n" by auto
  have names: "names_of rows = n # names_of rest"
    using n rows by (simp add: names_of_Cons)
  obtain m where
    m: "max_loop (JStr n) (length n) (map JStr (names_of rest)) = Inr (JStr m)"
       "length m = Max (insert (length n) (length ` set (names_of rest)))"
    using max_loop_names by blast
  show ?thesis
    using mapM_names [OF assms(2)] names m
    by (simp add: list_spacing_def py_max_len_def ebind_def)
qed

lemma length_center: "length (center s w) = max w (length s)"
  by (auto simp: center_def Let_def)

lemma list_run:
  assumes "get_access_token E = Inr token"
      and "http E (list_request E args token) = Inr r"
      and "body r = Some (JArr rows)" and "rows \<noteq> []"
      and "list_spacing (JArr rows) = Inr w"
  shows "list_command E args =
           (Http (list_request E args token) # fst (print_rows E (l_show_colors args) w rows),
            snd (print_rows E (l_show_colors args) w rows))"
  using assms
  by (simp add: list_command_def r_json_def io_defs split: prod.splits sum.splits)

lemma format_row_center:
  assumes "name_of row = Some n" and "format_row E sc w row = Inr line"
  shows "\<exists>c x tc. line = bg E x @ fg E tc @ [32] @ center n w @ [32] @ attr E 0 @ [32]
                     @ (if sc then ascii ''[#'' @ format_value E c @ ascii '']'' else [])"
proof -
  from assms obtain c x tc where
    "line = bg E x @ fg E tc @ [32] @ center n w @ [32] @ attr E 0 @ [32]
              @ (if sc then ascii ''[#'' @ format_value E c @ ascii '']'' else [])"
    by (auto simp: format_row_def ebind_def name_of_Some split: sum.splits)
  then show ?thesis by blast
qed

lemma print_rows_lines:
  "\<exists>lines. fst (print_rows E sc w rows) = map Print lines
         \<and> length lines \<le> length rows
         \<and> (snd (print_rows E sc w rows) = Inr () \<longrightarrow> length lines = length rows)
         \<and> list_all2 (\<lambda>row line. format_row E sc w row = Inr line)
               (take (length lines) rows) lines"
proof (induction rows)
  case Nil
  then show ?case by (simp add: ret_def)
next
  case (Cons row rows)
  show ?case
  proof (cases "format_row E sc w row")
    case (Inl e)
    then have "print_rows E sc w (row # rows) = ([], Inl e)"
      by (simp add: io_defs)
    then show ?thesis by simp
  next
    case (Inr line)
    from Cons.IH obtain lines where
      l: "fst (print_rows E sc w rows) = map Print lines" "length lines \<le> length rows"
         "snd (print_rows E sc w rows) = Inr () \<longrightarrow> length lines = length rows"
         "list_all2 (\<lambda>row line. format_row E sc w row = Inr line)
            (take (length lines) rows) lines"
      by blast
    have step: "print_rows E sc w (row # rows) =
            (Print line # fst (print_rows E sc w rows), snd (print_rows E sc w rows))"
      using Inr by (simp add: io_defs split: prod.splits sum.splits)
    have "fst (print_rows E sc w (row # rows)) = map Print (line # lines)"
      "length (line # lines) \<le> length (row # rows)"
      "snd (print_rows E sc w (row # rows)) = Inr () \<longrightarrow>
         length (line # lines) = length (row # rows)"
      "list_all2 (\<lambda>row line. format_row E sc w row = Inr line)
         (take (length (line # lines)) (row # rows)) (line # lines)"
      using l Inr by (simp_all add: step del: print_rows.simps)
    then show ?thesis by blast
  qed
qed

text \<open>
  C3. For a response that is a non-empty array of labels, each an object with a
  string name: the width computed at line 88 is the greatest length of a name in the
  response. The lines the handler prints after its request are, row by row from the
  first, the name of the row centred with that width between the colour codes, so
  that each centred name has exactly that length; all rows are printed when the
  handler returns. The width is the same for every rearrangement of the response,
  and when one name is strictly longer than every other, the width is the length of
  that name.
\<close>

theorem list_width_is_longest_name:
  assumes "rows \<noteq> []" and "\<forall>row \<in> set rows. name_of row \<noteq> None"
  shows "list_spacing (JArr rows) = Inr (Max (length ` set (names_of rows)))
     \<and> (get_access_token E = Inr token \<and> http E (list_request E args token) = Inr r
          \<and> body r = Some (JArr rows) \<longrightarrow>
        (\<exists>lines.
           fst (list_command E args) = Http (list_request E args token) # map Print lines
           \<and> length lines \<le> length rows
           \<and> (snd (list_command E args) = Inr () \<longrightarrow> length lines = length rows)
           \<and> list_all2
                (\<lambda>row line. \<exists>n c x tc.
                   name_of row = Some n
                   \<and> length (center n (Max (length ` set (names_of rows))))
                       = Max (length ` set (names_of rows))
                   \<and> line = bg E x @ fg E tc @ [32]
                       @ center n (Max (length ` set (names_of rows)))
                       @ [32] @ attr E 0 @ [32]
                       @ (if l_show_colors args
                          then ascii ''[#'' @ format_value E c @ ascii '']'' else []))
                (take (length lines) rows) lines))
     \<and> (mset rows' = mset rows \<longrightarrow> list_spacing (JArr rows') = list_spacing (JArr rows))
     \<and> (n \<in> set (names_of rows)
          \<and> (\<forall>m \<in> set (names_of rows). m \<noteq> n \<longrightarrow> length m < length n) \<longrightarrow>
        list_spacing (JArr rows) = Inr (length n))"
proof -
  let ?W = "Max (length ` set (names_of rows))"
  let ?sc = "l_show_colors args"
  have w: "list_spacing (JArr rows) = Inr ?W"
    using assms by (rule list_spacing_Max)
  have run: "get_access_token E = Inr token \<and> http E (list_request E args token) = Inr r
          \<and> body r = Some (JArr rows) \<longrightarrow>
        (\<exists>lines.
           fst (list_command E args) = Http (list_request E args token) # map Print lines
           \<and> length lines \<le> length rows
           \<and> (snd (list_command E args) = Inr () \<longrightarrow> length lines = length rows)
           \<and> list_all2
                (\<lambda>row line. \<exists>n c x tc.
                   name_of row = Some n \<and> length (center n ?W) = ?W
                   \<and> line = bg E x @ fg E tc @ [32] @ center n ?W @ [32] @ attr E 0 @ [32]
                       @ (if ?sc then ascii ''[#'' @ format_value E c @ ascii '']'' else []))
                (take (length lines) rows) lines)"
  proof (intro impI, elim conjE)
    assume h: "get_access_token E = Inr token" "http E (list_request E args token) = Inr r"
      "body r = Some (JArr rows)"
    have cmd: "list_command E args =
           (Http (list_request E args token) # fst (print_rows E ?sc ?W rows),
            snd (print_rows E ?sc ?W rows))"
      using h assms(1) w by (rule list_run)
    obtain lines where
      l: "fst (print_rows E ?sc ?W rows) = map Print lines" "length lines \<le> length rows"
         "snd (print_rows E ?sc ?W rows) = Inr () \<longrightarrow> length lines = length rows"
         "list_all2 (\<lambda>row line. format_row E ?sc ?W row = Inr line)
            (take (length lines) rows) lines"
      using print_rows_lines by blast
    have "list_all2
                (\<lambda>row line. \<exists>n c x tc.
                   name_of row = Some n \<and> length (center n ?W) = ?W
                   \<and> line = bg E x @ fg E tc @ [32] @ center n ?W @ [32] @ attr E 0 @ [32]
                       @ (if ?sc then ascii ''[#'' @ format_value E c @ ascii '']'' else []))
                (take (length lines) rows) lines"
      using l(4)
    proof (rule list.rel_mono_strong)
      fix row line
      assume t: "row \<in> set (take (length lines) rows)"
         and f: "format_row E ?sc ?W row = Inr line"
      from t have r: "row \<in> set rows" by (rule in_set_takeD)
      with assms(2) obtain n where n: "name_of row = Some n" by auto
      with r have "n \<in> set (names_of rows)"
        by (auto simp: set_names_of)
      then have "length n \<le> ?W" by simp
      then have "length (center n ?W) = ?W" by (simp add: length_center)
      with n format_row_center [OF n f]
      show "\<exists>n c x tc.
                   name_of row = Some n \<and> length (center n ?W) = ?W
                   \<and> line = bg E x @ fg E tc @ [32] @ center n ?W @ [32] @ attr E 0 @ [32]
                       @ (if ?sc then ascii ''[#'' @ format_value E c @ ascii '']'' else [])"
        by blast
    qed
    with l cmd show "\<exists>lines.
           fst (list_command E args) = Http (list_request E args token) # map Print lines
           \<and> length lines \<le> length rows
           \<and> (snd (list_command E args) = Inr () \<longrightarrow> length lines = length rows)
           \<and> list_all2
                (\<lambda>row line. \<exists>n c x tc.
                   name_of row = Some n \<and> length (center n ?W) = ?W
                   \<and> line = bg E x @ fg E tc @ [32] @ center n ?W @ [32] @ attr E 0 @ [32]
                       @ (if ?sc then ascii ''[#'' @ format_value E c @ ascii '']'' else []))
                (take (length lines) rows) lines"
      by (intro exI [of _ lines]) simp
  qed
  have perm: "mset rows' = mset rows \<longrightarrow> list_spacing (JArr rows') = list_spacing (JArr rows)"
  proof
    assume p: "mset rows' = mset rows"
    then have s: "set rows' = set rows" by (rule mset_eq_setD)
    with assms have "rows' \<noteq> []" "\<forall>row \<in> set rows'. name_of row \<noteq> None" by auto
    then have "list_spacing (JArr rows') = Inr (Max (length ` set (names_of rows')))"
      by (rule list_spacing_Max)
    also have "set (names_of rows') = set (names_of rows)"
      using s by (simp add: set_names_of)
    finally show "list_spacing (JArr rows') = list_spacing (JArr rows)"
      using w by simp
  qed
  have longest: "n \<in> set (names_of rows)
          \<and> (\<forall>m \<in> set (names_of rows). m \<noteq> n \<longrightarrow> length m < length n) \<longrightarrow>
        list_spacing (JArr rows) = Inr (length n)"
  proof
    assume h: "n \<in> set (names_of rows)
          \<and> (\<forall>m \<in> set (names_of rows). m \<noteq> n \<longrightarrow> length m < length n)"
    have "?W = length n"
    proof (rule Max_eqI)
      show "finite (length ` set (names_of rows))" by simp
      show "length n \<in> length ` set (names_of rows)" using h by simp
      fix y assume "y \<in> length ` set (names_of rows)"
      then obtain m where "m \<in> set (names_of rows)" "y = length m" by auto
      with h show "y \<le> length n" by (cases "m = n") auto
    qed
    with w show "list_spacing (JArr rows) = Inr (length n)" by simp
  qed
  from w run perm longest show ?thesis by blast
qed

theorem list_width_is_longest_name_witness:
  "list_spacing (JArr two_labels) = Inr 11
   \<and> list_spacing (JArr (rev two_labels)) = Inr 11
   \<and> (\<exists>lines.
         fst (list_command (demo_env (always 200 (Some (JArr two_labels)))) demo_list) =
           Http (list_request (demo_env (always 200 (Some (JArr two_labels)))) demo_list
                   (ascii ''t0k3n'')) # map Print lines
         \<and> length lines \<le> length two_labels)
   \<and> list_command (demo_env (always 200 (Some (JArr two_labels)))) demo_list =
       ([Http (list_request (demo_env (always 200 (Some (JArr two_labels)))) demo_list
                 (ascii ''t0k3n'')),
         Print (ascii ''<bg><fg>     bug     <reset> [#ff0000]''),
         Print (ascii ''<bg><fg> enhancement <reset> [#00ff00]'')],
        Inr ())"
proof -
  let ?E = "demo_env (always 200 (Some (JArr two_labels)))"
  have n1: "name_of (label n c) = Some n" for n c
    by (simp add: name_of_def label_def ascii_def)
  have names: "names_of two_labels = [ascii ''bug'', ascii ''enhancement'']"
    by (simp add: names_of_def two_labels_def n1)
  have wf: "\<forall>row \<in> set two_labels. name_of row \<noteq> None"
    by (simp add: two_labels_def n1)
  have ne: "two_labels \<noteq> []"
    by (simp add: two_labels_def)
  have W: "Max (length ` set (names_of two_labels)) = 11"
    by (simp add: names ascii_def)
  have rsp: "http ?E (list_request ?E demo_list (ascii ''t0k3n''))
               = Inr \<lparr> status_code = 200, body = Some (JArr two_labels) \<rparr>"
    by (simp add: demo_env_def always_def)
  have r4: "replicate 4 x = [x, x, x, x]" for x :: nat
    by (simp add: numeral_eq_Suc)
  have rows: "print_rows ?E (l_show_colors demo_list) 11 two_labels =
       ([Print (ascii ''<bg><fg>     bug     <reset> [#ff0000]''),
         Print (ascii ''<bg><fg> enhancement <reset> [#00ff00]'')], Inr ())"
    by (simp add: two_labels_def label_def demo_list_def demo_env_def format_row_def
          format_value_def center_def ebind_def io_defs ascii_def Let_def r4)
  note T = list_width_is_longest_name [OF ne wf, where E = ?E and token = "ascii ''t0k3n''"
      and args = demo_list
      and r = "\<lparr> status_code = 200, body = Some (JArr two_labels) \<rparr>"
      and rows' = "rev two_labels" and n = "ascii ''enhancement''"]
  have a: "list_spacing (JArr two_labels) = Inr 11"
    using T by (simp add: W)
  have b: "list_spacing (JArr (rev two_labels)) = Inr 11"
    using T a by simp
  have c: "\<exists>lines.
         fst (list_command ?E demo_list) =
           Http (list_request ?E demo_list (ascii ''t0k3n'')) # map Print lines
         \<and> length lines \<le> length two_labels"
    using T demo_token [of "always 200 (Some (JArr two_labels))"] rsp by auto
  have d: "list_command ?E demo_list =
       ([Http (list_request ?E demo_list (ascii ''t0k3n'')),
         Print (ascii ''<bg><fg>     bug     <reset> [#ff0000]''),
         Print (ascii ''<bg><fg> enhancement <reset> [#00ff00]'')],
        Inr ())"
    using list_run [OF demo_token rsp _ ne a] by (simp add: rows)
  from a b c d show ?thesis by blast
qed

section \<open>The outcome of delete\<close>

text \<open>
  C4. When a delete invocation reaches the network call and a response arrives, the
  trace ends with that one request and one printed line, chosen by the status alone:
  the removal message for 204, for 404 the line saying the label does not exist, with
  the label name and the repository in it, and one fixed failure line for every other
  status. The three lines differ from one another, no second request is issued and
  the handler returns.
\<close>

theorem delete_status_classification:
  assumes "get_access_token E = Inr token"
      and "http E (delete_request E args token) = Inr r"
      and "filter is_http (fst (delete_command E stdin args)) \<noteq> []"
  shows "\<exists>t. filter is_http t = []
            \<and> delete_command E stdin args =
                (t @ [Http (delete_request E args token),
                      Print (if status_code r = 204 then
                               0x1F5D1 # ascii ''  Label successfully removed''
                             else if status_code r = 404 then
                               0x1F6AB # ascii ''  The label '' @ [39]
                                 @ join (ascii '' '') (d_name args) @ [39] @ ascii '' doesn''
                                 @ [39] @ ascii ''t exist in '' @ d_repo args @ ascii ''.''
                             else 0x274C # ascii ''  Failed to create label.'')],
                 Inr ())
            \<and> (0x1F5D1 # ascii ''  Label successfully removed'' \<noteq>
                 0x1F6AB # ascii ''  The label '' @ [39]
                                 @ join (ascii '' '') (d_name args) @ [39] @ ascii '' doesn''
                                 @ [39] @ ascii ''t exist in '' @ d_repo args @ ascii ''.'')
            \<and> (0x274C # ascii ''  Failed to create label.'' \<noteq>
                 0x1F6AB # ascii ''  The label '' @ [39]
                                 @ join (ascii '' '') (d_name args) @ [39] @ ascii '' doesn''
                                 @ [39] @ ascii ''t exist in '' @ d_repo args @ ascii ''.'')
            \<and> (0x274C # ascii ''  Failed to create label.'' \<noteq>
                 0x1F5D1 # ascii ''  Label successfully removed'')"
  using delete_reached [OF assms]
  by (auto simp: delete_outcome_def io_defs)

theorem delete_status_classification_witness:
  "delete_command (demo_env (always 404 None)) [ascii ''Y''] (bug_args False) =
     ([Write (delete_prompt (ascii ''good bug'')), ReadLine (ascii ''Y''),
       Http (delete_request (demo_env (always 404 None)) (bug_args False) (ascii ''t0k3n'')),
       Print (0x1F6AB # ascii ''  The label '' @ [39] @ ascii ''good bug'' @ [39]
                @ ascii '' doesn'' @ [39] @ ascii ''t exist in octo/demo.'')],
      Inr ())"
proof -
  have rsp: "http (demo_env (always 404 None))
               (delete_request (demo_env (always 404 None)) (bug_args False) (ascii ''t0k3n''))
             = Inr \<lparr> status_code = 404, body = None \<rparr>"
    by (simp add: demo_env_def always_def)
  have run: "delete_command (demo_env (always 404 None)) [ascii ''Y''] (bug_args False) =
     ([Write (delete_prompt (ascii ''good bug'')), ReadLine (ascii ''Y''),
       Http (delete_request (demo_env (always 404 None)) (bug_args False) (ascii ''t0k3n''))]
      @ fst (delete_outcome (ascii ''good bug'') (ascii ''octo/demo'')
               \<lparr> status_code = 404, body = None \<rparr>), Inr ())"
    by (simp add: delete_command_def Let_def bug_args_def demo_env_def always_def io_defs
          delete_outcome_def lower_def lower_cp_def ascii_def)
  have reached: "filter is_http
      (fst (delete_command (demo_env (always 404 None)) [ascii ''Y''] (bug_args False))) \<noteq> []"
    by (simp add: run)
  from delete_status_classification [OF demo_token rsp reached]
  obtain t where
    "delete_command (demo_env (always 404 None)) [ascii ''Y''] (bug_args False) =
       (t @ [Http (delete_request (demo_env (always 404 None)) (bug_args False) (ascii ''t0k3n'')),
             Print (0x1F6AB # ascii ''  The label '' @ [39]
                      @ join (ascii '' '') (d_name (bug_args False)) @ [39] @ ascii '' doesn''
                      @ [39] @ ascii ''t exist in '' @ d_repo (bug_args False) @ ascii ''.'')],
        Inr ())"
    by auto
  then show ?thesis
    using run by (simp add: bug_args_def ascii_def delete_outcome_def io_defs)
qed

section \<open>The outcome of create\<close>

lemma mapM_all2:
  "list_all2 (\<lambda>x y. f x = Inr y) xs ys \<Longrightarrow> mapM f xs = Inr ys"
  by (induction xs ys rule: list_all2_induct) (simp_all add: ebind_def)

lemma collect_errors_entries:
  assumes "map_of kvs (ascii ''message'') = Some (JStr m)"
      and "substr (ascii ''Validation Failed'') m"
      and "map_of kvs (ascii ''errors'') = Some (JArr es)"
      and "list_all2 (\<lambda>e l. parse_validation_error E name e = Inr l) es ls"
  shows "collect_errors E name (JObj kvs) = Inr ls"
  using assms(1-3) mapM_all2 [OF assms(4)]
  by (simp add: collect_errors_def ebind_def)

lemma collect_errors_no_entries:
  assumes "map_of kvs (ascii ''message'') = Some (JStr m)"
      and "map_of kvs (ascii ''errors'') = None \<or> map_of kvs (ascii ''errors'') = Some (JArr [])"
  shows "collect_errors E name (JObj kvs) = Inr []"
  using assms
  by (auto simp: collect_errors_def ebind_def)

lemma collect_errors_unreported:
  assumes "map_of kvs (ascii ''message'') = None
           \<or> (\<exists>m. map_of kvs (ascii ''message'') = Some (JStr m)
                  \<and> \<not> substr (ascii ''Validation Failed'') m)"
  shows "collect_errors E name (JObj kvs) = Inr []"
proof -
  have "\<not> substr (ascii ''Validation Failed'') []"
    by (simp add: ascii_def)
  with assms show ?thesis
    by (auto simp: collect_errors_def ebind_def)
qed

lemma collect_errors_not_object:
  "\<forall>kvs. res \<noteq> JObj kvs \<Longrightarrow> collect_errors E name res = Inl AttributeError"
  by (cases res) (simp_all add: collect_errors_def ebind_def)

lemma collect_errors_bad_message:
  assumes "map_of kvs (ascii ''message'') = Some v"
      and "v = JNull \<or> (\<exists>b. v = JBool b) \<or> (\<exists>i. v = JNum i)"
  shows "collect_errors E name (JObj kvs) = Inl TypeError"
  using assms by (auto simp: collect_errors_def ebind_def)

text \<open>
  C5, amended. For a create invocation with a stored token whose request gets a
  response: status 201 gives the confirmation line. For any other status the body is
  decoded, and the handler raises, printing nothing, when the body is not JSON
  (ValueError), when it decodes to a value that is not an object (AttributeError), and
  when the message of the object is null, a boolean or a number (TypeError). For a
  body that decodes to an object whose message is a string: when the message contains
  \<open>Validation Failed\<close> and the object carries error entries, each rendered by
  \<open>parse_validation_error\<close>, the handler prints the rendered messages joined by
  newlines, one per entry, and when no entry is reported it prints exactly the one line
  \<open>Failed to create label.\<close> It prints that one line also whenever the message is
  absent or does not contain \<open>Validation Failed\<close>.
\<close>

theorem create_outcome_by_status:
  assumes "get_access_token E = Inr token"
      and "http E (create_request E args token) = Inr r"
  shows "(status_code r = 201 \<longrightarrow>
            create_command E args =
              ([Http (create_request E args token),
                Print (0x2705 # ascii ''  Label successfully created'')], Inr ()))
     \<and> (status_code r \<noteq> 201 \<and> body r = None \<longrightarrow>
            create_command E args = ([Http (create_request E args token)], Inl ValueError))
     \<and> (status_code r \<noteq> 201 \<and> body r = Some res \<and> (\<forall>kvs. res \<noteq> JObj kvs) \<longrightarrow>
            create_command E args =
              ([Http (create_request E args token)], Inl AttributeError))
     \<and> (status_code r \<noteq> 201 \<and> body r = Some (JObj kvs)
          \<and> map_of kvs (ascii ''message'') = Some v
          \<and> (v = JNull \<or> (\<exists>b. v = JBool b) \<or> (\<exists>i. v = JNum i)) \<longrightarrow>
            create_command E args = ([Http (create_request E args token)], Inl TypeError))
     \<and> (status_code r \<noteq> 201 \<and> body r = Some (JObj kvs)
          \<and> map_of kvs (ascii ''message'') = Some (JStr m)
          \<and> substr (ascii ''Validation Failed'') m
          \<and> map_of kvs (ascii ''errors'') = Some (JArr es) \<and> es \<noteq> []
          \<and> list_all2 (\<lambda>e l. parse_validation_error E (join (ascii '' '') (c_name args)) e
                                = Inr l) es ls \<longrightarrow>
            create_command E args =
              ([Http (create_request E args token), Print (join [10] ls)], Inr ())
            \<and> length ls = length es)
     \<and> (status_code r \<noteq> 201 \<and> body r = Some (JObj kvs)
          \<and> map_of kvs (ascii ''message'') = Some (JStr m)
          \<and> (map_of kvs (ascii ''errors'') = None
               \<or> map_of kvs (ascii ''errors'') = Some (JArr [])) \<longrightarrow>
            create_command E args =
              ([Http (create_request E args token),
                Print (0x274C # ascii ''  Failed to create label.'')], Inr ()))
     \<and> (status_code r \<noteq> 201 \<and> body r = Some (JObj kvs)
          \<and> (map_of kvs (ascii ''message'') = None
               \<or> (\<exists>m. map_of kvs (ascii ''message'') = Some (JStr m)
                      \<and> \<not> substr (ascii ''Validation Failed'') m)) \<longrightarrow>
            create_command E args =
              ([Http (create_request E args token),
                Print (0x274C # ascii ''  Failed to create label.'')], Inr ()))"
proof -
  note run = create_run [OF assms]
  have ok: "status_code r = 201 \<longrightarrow>
            create_command E args =
              ([Http (create_request E args token),
                Print (0x2705 # ascii ''  Label successfully created'')], Inr ())"
    by (simp add: run)
  have undecoded: "status_code r \<noteq> 201 \<and> body r = None \<longrightarrow>
            create_command E args = ([Http (create_request E args token)], Inl ValueError)"
    by (simp add: run render_failure_undecoded)
  have not_object: "status_code r \<noteq> 201 \<and> body r = Some res
          \<and> (\<forall>kvs. res \<noteq> JObj kvs) \<longrightarrow>
            create_command E args =
              ([Http (create_request E args token)], Inl AttributeError)"
    using collect_errors_not_object [of res E "join (ascii '' '') (c_name args)"]
    by (auto simp: run render_failure_raises)
  have bad_message: "status_code r \<noteq> 201 \<and> body r = Some (JObj kvs)
          \<and> map_of kvs (ascii ''message'') = Some v
          \<and> (v = JNull \<or> (\<exists>b. v = JBool b) \<or> (\<exists>i. v = JNum i)) \<longrightarrow>
            create_command E args = ([Http (create_request E args token)], Inl TypeError)"
    using collect_errors_bad_message [of kvs v E "join (ascii '' '') (c_name args)"]
    by (auto simp: run render_failure_raises)
  have entries: "status_code r \<noteq> 201 \<and> body r = Some (JObj kvs)
          \<and> map_of kvs (ascii ''message'') = Some (JStr m)
          \<and> substr (ascii ''Validation Failed'') m
          \<and> map_of kvs (ascii ''errors'') = Some (JArr es) \<and> es \<noteq> []
          \<and> list_all2 (\<lambda>e l. parse_validation_error E (join (ascii '' '') (c_name args)) e
                                = Inr l) es ls \<longrightarrow>
            create_command E args =
              ([Http (create_request E args token), Print (join [10] ls)], Inr ())
            \<and> length ls = length es"
  proof (intro impI, elim conjE)
    assume h: "status_code r \<noteq> 201" "body r = Some (JObj kvs)"
      "map_of kvs (ascii ''message'') = Some (JStr m)"
      "substr (ascii ''Validation Failed'') m"
      "map_of kvs (ascii ''errors'') = Some (JArr es)" "es \<noteq> []"
      "list_all2 (\<lambda>e l. parse_validation_error E (join (ascii '' '') (c_name args)) e
                                = Inr l) es ls"
    have len: "length ls = length es"
      using h(7) by (simp add: list_all2_lengthD)
    with h(6) have "ls \<noteq> []" by auto
    with h len show "create_command E args =
              ([Http (create_request E args token), Print (join [10] ls)], Inr ())
            \<and> length ls = length es"
      by (simp add: run render_failure_lines [OF h(2) collect_errors_entries [OF h(3,4,5,7)]])
  qed
  have none: "status_code r \<noteq> 201 \<and> body r = Some (JObj kvs)
          \<and> map_of kvs (ascii ''message'') = Some (JStr m)
          \<and> (map_of kvs (ascii ''errors'') = None
               \<or> map_of kvs (ascii ''errors'') = Some (JArr [])) \<longrightarrow>
            create_command E args =
              ([Http (create_request E args token),
                Print (0x274C # ascii ''  Failed to create label.'')], Inr ())"
    using collect_errors_no_entries [of kvs m E "join (ascii '' '') (c_name args)"]
    by (auto simp: run render_failure_generic)
  have unreported: "status_code r \<noteq> 201 \<and> body r = Some (JObj kvs)
          \<and> (map_of kvs (ascii ''message'') = None
               \<or> (\<exists>m. map_of kvs (ascii ''message'') = Some (JStr m)
                      \<and> \<not> substr (ascii ''Validation Failed'') m)) \<longrightarrow>
            create_command E args =
              ([Http (create_request E args token),
                Print (0x274C # ascii ''  Failed to create label.'')], Inr ())"
    using collect_errors_unreported [of kvs E "join (ascii '' '') (c_name args)"]
    by (auto simp: run render_failure_generic)
  from ok undecoded not_object bad_message entries none unreported show ?thesis by blast
qed

theorem create_outcome_by_status_witness:
  "create_command (demo_env (always 201 None)) bug_label =
     ([Http (create_request (demo_env (always 201 None)) bug_label (ascii ''t0k3n'')),
       Print (0x2705 # ascii ''  Label successfully created'')], Inr ())
   \<and> create_command (demo_env (always 502 None)) bug_label =
     ([Http (create_request (demo_env (always 502 None)) bug_label (ascii ''t0k3n''))],
      Inl ValueError)
   \<and> create_command (demo_env (always 422 (Some validation_body))) bug_label =
     ([Http (create_request (demo_env (always 422 (Some validation_body))) bug_label
               (ascii ''t0k3n'')),
       Print (ascii ''good bug is invalid'' @ [10] @ ascii ''good bug is invalid'')], Inr ())
   \<and> create_command (demo_env (always 500 (Some (JObj [])))) bug_label =
     ([Http (create_request (demo_env (always 500 (Some (JObj [])))) bug_label
               (ascii ''t0k3n'')),
       Print (0x274C # ascii ''  Failed to create label.'')], Inr ())"
proof -
  have rsp: "http (demo_env (always st b)) rq = Inr \<lparr> status_code = st, body = b \<rparr>"
    for st b rq
    by (simp add: demo_env_def always_def)
  have name: "join (ascii '' '') (c_name bug_label) = ascii ''good bug''"
    by (simp add: bug_label_def ascii_def)
  have vf: "substr (ascii ''Validation Failed'') (ascii ''Validation Failed'')"
    by (simp add: ascii_def)
  have parse: "parse_validation_error (demo_env net) n e = Inr (n @ ascii '' is invalid'')"
    for net n e
    by (simp add: demo_env_def)
  have keys: "ascii ''errors'' \<noteq> ascii ''message''"
    by (simp add: ascii_def)
  note T = create_outcome_by_status [where token = "ascii ''t0k3n''" and args = bug_label]
  have a: "create_command (demo_env (always 201 None)) bug_label =
     ([Http (create_request (demo_env (always 201 None)) bug_label (ascii ''t0k3n'')),
       Print (0x2705 # ascii ''  Label successfully created'')], Inr ())"
    using T [where E = "demo_env (always 201 None)"
        and r = "\<lparr> status_code = 201, body = None \<rparr>"]
    by (simp add: demo_token rsp)
  have b: "create_command (demo_env (always 502 None)) bug_label =
     ([Http (create_request (demo_env (always 502 None)) bug_label (ascii ''t0k3n''))],
      Inl ValueError)"
    using T [where E = "demo_env (always 502 None)"
        and r = "\<lparr> status_code = 502, body = None \<rparr>"]
    by (simp add: demo_token rsp)
  have c: "create_command (demo_env (always 422 (Some validation_body))) bug_label =
     ([Http (create_request (demo_env (always 422 (Some validation_body))) bug_label
               (ascii ''t0k3n'')),
       Print (ascii ''good bug is invalid'' @ [10] @ ascii ''good bug is invalid'')], Inr ())"
    using T [where E = "demo_env (always 422 (Some validation_body))"
        and r = "\<lparr> status_code = 422, body = Some validation_body \<rparr>"
        and kvs = "[(ascii ''message'', JStr (ascii ''Validation Failed'')),
           (ascii ''errors'',
            JArr [JObj [(ascii ''field'', JStr (ascii ''name'')),
                        (ascii ''code'', JStr (ascii ''already_exists''))],
                  JObj [(ascii ''field'', JStr (ascii ''color'')),
                        (ascii ''code'', JStr (ascii ''invalid''))]])]"
        and m = "ascii ''Validation Failed''"
        and es = "[JObj [(ascii ''field'', JStr (ascii ''name'')),
                        (ascii ''code'', JStr (ascii ''already_exists''))],
                  JObj [(ascii ''field'', JStr (ascii ''color'')),
                        (ascii ''code'', JStr (ascii ''invalid''))]]"
        and ls = "[ascii ''good bug is invalid'', ascii ''good bug is invalid'']"]
    by (simp add: demo_token rsp validation_body_def vf parse name keys) (simp add: ascii_def)
  have d: "create_command (demo_env (always 500 (Some (JObj [])))) bug_label =
     ([Http (create_request (demo_env (always 500 (Some (JObj [])))) bug_label
               (ascii ''t0k3n'')),
       Print (0x274C # ascii ''  Failed to create label.'')], Inr ())"
    using T [where E = "demo_env (always 500 (Some (JObj [])))"
        and r = "\<lparr> status_code = 500, body = Some (JObj []) \<rparr>" and kvs = "[]"]
    by (simp add: demo_token rsp)
  from a b c d show ?thesis by blast
qed

text \<open>
  A status other than 201 does not always end in printed lines: a 503 whose body is
  not JSON, and a 500 whose body is a JSON array, leave create with an exception and
  neither the entries nor the failure line are printed.
\<close>

theorem create_outcome_counterexample:
  "create_command (demo_env (always 503 None)) bug_label =
     ([Http (create_request (demo_env (always 503 None)) bug_label (ascii ''t0k3n''))],
      Inl ValueError)
   \<and> filter is_print (fst (create_command (demo_env (always 503 None)) bug_label)) = []
   \<and> create_command (demo_env (always 500 (Some (JArr [])))) bug_label =
     ([Http (create_request (demo_env (always 500 (Some (JArr [])))) bug_label
               (ascii ''t0k3n''))],
      Inl AttributeError)
   \<and> filter is_print
        (fst (create_command (demo_env (always 500 (Some (JArr [])))) bug_label)) = []"
  by (simp add: create_command_def render_failure_def collect_errors_def r_json_def
        demo_env_def always_def ebind_def io_defs)

section \<open>The payload of update\<close>

text \<open>
  C6, amended. For an update invocation that reaches the network call (\<open>--name\<close>
  provided with at least one word or \<open>--color\<close> provided with a string that is not
  empty, and a stored token), the body of the PATCH request holds no key other than
  name and color. It holds name exactly when \<open>--name\<close> was provided with at least one
  word, and then as the words joined by single spaces (for \<open>--name ""\<close> that is the
  empty string, which is sent). It holds color exactly when \<open>--color\<close> was provided
  with a string that is not empty, and then as that string; a \<open>--color\<close> that is absent
  or the empty string is absent from the payload, and so is an absent \<open>--name\<close>. Status
  200 gives the confirmation line; any other status goes to the rendering of the
  failure.
\<close>

theorem update_payload_fields:
  assumes "name_has_words args \<or> color_not_empty args"
      and "get_access_token E = Inr token"
  shows "\<exists>p. update_payload args = Inr p
     \<and> set (map fst p) \<subseteq> {''name'', ''color''}
     \<and> map_of p ''name'' =
         (case u_name args of
            None \<Rightarrow> None
          | Some ws \<Rightarrow> if ws \<noteq> [] then Some (AStr (join (ascii '' '') ws)) else None)
     \<and> map_of p ''color'' =
         (case u_color args of
            None \<Rightarrow> None
          | Some c \<Rightarrow> if c \<noteq> [] then Some (AStr c) else None)
     \<and> json_payload (update_request E args token p) = p
     \<and> meth (update_request E args token p) = PATCH
     \<and> (\<exists>t. fst (update_command E args) = Http (update_request E args token p) # t
            \<and> filter is_http t = [])
     \<and> (http E (update_request E args token p) = Inr r \<and> status_code r = 200 \<longrightarrow>
          update_command E args =
            ([Http (update_request E args token p),
              Print (0x2705 # ascii ''  Label successfully updated'')], Inr ()))
     \<and> (http E (update_request E args token p) = Inr r \<and> status_code r \<noteq> 200 \<longrightarrow>
          update_command E args =
            (Http (update_request E args token p)
               # fst (render_failure E (join (ascii '' '') (u_label_name args))
                        (0x274C # ascii ''  Failed to update label.'') r),
             snd (render_failure E (join (ascii '' '') (u_label_name args))
                        (0x274C # ascii ''  Failed to update label.'') r)))"
proof -
  define p where "p = (case u_name args of
             None \<Rightarrow> []
           | Some ws \<Rightarrow> if ws \<noteq> [] then [(''name'', AStr (join (ascii '' '') ws))] else [])
          @ (case u_color args of
               None \<Rightarrow> []
             | Some c \<Rightarrow> if c \<noteq> [] then [(''color'', AStr c)] else [])"
  have p: "update_payload args = Inr p"
    by (simp add: p_def update_payload_eq)
  have keys: "set (map fst p) \<subseteq> {''name'', ''color''}"
    by (auto simp: p_def split: option.splits if_splits)
  have n: "map_of p ''name'' =
         (case u_name args of
            None \<Rightarrow> None
          | Some ws \<Rightarrow> if ws \<noteq> [] then Some (AStr (join (ascii '' '') ws)) else None)"
    by (simp add: p_def split: option.splits)
  have c: "map_of p ''color'' =
         (case u_color args of
            None \<Rightarrow> None
          | Some c \<Rightarrow> if c \<noteq> [] then Some (AStr c) else None)"
    by (simp add: p_def split: option.splits)
  have rq: "json_payload (update_request E args token p) = p"
    "meth (update_request E args token p) = PATCH"
    by (simp_all add: update_request_def)
  note run = update_run [OF assms p]
  have one: "\<exists>t. fst (update_command E args) = Http (update_request E args token p) # t
            \<and> filter is_http t = []"
    by (rule update_one_request [OF assms p])
  have ok: "http E (update_request E args token p) = Inr r \<and> status_code r = 200 \<longrightarrow>
          update_command E args =
            ([Http (update_request E args token p),
              Print (0x2705 # ascii ''  Label successfully updated'')], Inr ())"
    by (simp add: run)
  have ko: "http E (update_request E args token p) = Inr r \<and> status_code r \<noteq> 200 \<longrightarrow>
          update_command E args =
            (Http (update_request E args token p)
               # fst (render_failure E (join (ascii '' '') (u_label_name args))
                        (0x274C # ascii ''  Failed to update label.'') r),
             snd (render_failure E (join (ascii '' '') (u_label_name args))
                        (0x274C # ascii ''  Failed to update label.'') r))"
    by (simp add: run)
  from p keys n c rq one ok ko show ?thesis by blast
qed

theorem update_payload_fields_witness:
  "update_command (demo_env (always 200 None))
     (update_demo (Some [ascii ''new'', ascii ''name'']) (Some (ascii ''00ff00''))) =
     ([Http \<lparr> meth = PATCH,
              url = ascii ''https://api.github.com/repos/octo/demo/labels/bug'',
              params = [(''access_token'', ascii ''t0k3n'')],
              json_payload = [(''name'', AStr (ascii ''new name'')),
                              (''color'', AStr (ascii ''00ff00''))] \<rparr>,
       Print (0x2705 # ascii ''  Label successfully updated'')], Inr ())"
proof -
  let ?a = "update_demo (Some [ascii ''new'', ascii ''name'']) (Some (ascii ''00ff00''))"
  let ?E = "demo_env (always 200 None)"
  have g: "name_has_words ?a \<or> color_not_empty ?a"
    by (simp add: name_has_words_def color_not_empty_def update_demo_def)
  have pl: "update_payload ?a = Inr [(''name'', AStr (ascii ''new name'')),
                              (''color'', AStr (ascii ''00ff00''))]"
    by (simp add: update_payload_eq update_demo_def ascii_def)
  have rsp: "http ?E rq = Inr \<lparr> status_code = 200, body = None \<rparr>" for rq
    by (simp add: demo_env_def always_def)
  have rq: "update_request ?E ?a (ascii ''t0k3n'') p =
      \<lparr> meth = PATCH, url = ascii ''https://api.github.com/repos/octo/demo/labels/bug'',
        params = [(''access_token'', ascii ''t0k3n'')], json_payload = p \<rparr>" for p
    by (simp add: update_request_def label_url_def update_demo_def demo_env_def ascii_def)
  from update_payload_fields [OF g demo_token, where r = "\<lparr> status_code = 200, body = None \<rparr>"]
  show ?thesis
    by (auto simp: pl rsp rq)
qed

text \<open>
  With \<open>--name new name --color ""\<close> the invocation reaches the network call, color was
  provided, and the payload holds the name alone.
\<close>

theorem update_payload_counterexample:
  "u_color (update_demo (Some [ascii ''new'', ascii ''name'']) (Some [])) \<noteq> None
   \<and> update_command (demo_env (always 200 None))
       (update_demo (Some [ascii ''new'', ascii ''name'']) (Some [])) =
     ([Http \<lparr> meth = PATCH,
              url = ascii ''https://api.github.com/repos/octo/demo/labels/bug'',
              params = [(''access_token'', ascii ''t0k3n'')],
              json_payload = [(''name'', AStr (ascii ''new name''))] \<rparr>,
       Print (0x2705 # ascii ''  Label successfully updated'')], Inr ())"
  by (simp add: update_command_def update_payload_def vars_update_def update_request_def
        label_url_def update_demo_def name_val_def color_val_def demo_env_def always_def
        ebind_def io_defs ascii_def)

section \<open>The empty list\<close>

text \<open>
  C7. When the response of a list invocation decodes to an array of zero labels, the
  handler prints the line \<open>No labels found\<close> after the request and leaves through
  \<open>sys.exit(0)\<close>; the trace holds no other printed line.
\<close>

theorem list_empty_exits_zero:
  assumes "get_access_token E = Inr token"
      and "http E (list_request E args token) = Inr r"
      and "body r = Some (JArr [])"
  shows "list_command E args =
           ([Http (list_request E args token), Print (0x2757 # ascii ''  No labels found'')],
            Inl (SystemExit 0))"
  using assms
  by (simp add: list_command_def r_json_def io_defs)

theorem list_empty_exits_zero_witness:
  "list_command (demo_env (always 200 (Some (JArr [])))) demo_list =
     ([Http (list_request (demo_env (always 200 (Some (JArr [])))) demo_list (ascii ''t0k3n'')),
       Print (0x2757 # ascii ''  No labels found'')],
      Inl (SystemExit 0))"
proof -
  let ?E = "demo_env (always 200 (Some (JArr [])))"
  have rsp: "http ?E (list_request ?E demo_list (ascii ''t0k3n''))
               = Inr \<lparr> status_code = 200, body = Some (JArr []) \<rparr>"
    by (simp add: demo_env_def always_def)
  show ?thesis
    using list_empty_exits_zero [OF demo_token rsp] by simp
qed

section \<open>The token file\<close>

lemma dropWhile_snoc_space:
  "is_space c \<Longrightarrow>
     dropWhile is_space (rev (dropWhile is_space (s @ [c])))
       = dropWhile is_space (rev (dropWhile is_space s))"
  by (induction s) simp_all

lemma strip_newline: "strip (s @ [10]) = strip s"
proof -
  have "is_space 10" by (simp add: is_space_def)
  then show ?thesis by (simp add: strip_def dropWhile_snoc_space)
qed

lemma strip_trimmed:
  assumes "s = [] \<or> (\<not> is_space (hd s) \<and> \<not> is_space (last s))"
  shows "strip s = s"
proof (cases s)
  case Nil
  then show ?thesis by (simp add: strip_def)
next
  case (Cons c cs)
  with assms have h: "\<not> is_space c" and l: "\<not> is_space (last s)" by auto
  from h Cons have "dropWhile is_space s = s" by simp
  moreover have "dropWhile is_space (rev s) = rev s"
  proof (cases "rev s")
    case Nil
    then show ?thesis by simp
  next
    case (Cons d ds)
    then have "d = hd (rev s)" by simp
    also have "\<dots> = last s" by (rule hd_rev)
    finally have "\<not> is_space d" using l by simp
    then have "dropWhile is_space (d # ds) = d # ds" by simp
    then show ?thesis by (simp only: Cons)
  qed
  ultimately show ?thesis by (simp add: strip_def)
qed

text \<open>
  C8, amended. For every token string that can be encoded as UTF-8 (one without a
  surrogate code point), when the token file can be opened for writing, auth
  overwrites it with exactly the token followed by one newline and prints its
  confirmation. A subsequent load returns the token trimmed; it returns exactly the
  token that was saved for every such token that has no white space at its start or
  end.
\<close>

theorem auth_then_load:
  assumes "writable F" and "utf8_encodable token"
  shows "token_file (fst (auth_command F token)) = Some (token @ [10])
     \<and> snd (auth_command F token) =
         ([Print (0x1F680 # ascii ''  Authentication stored!'')], Inr ())
     \<and> load (fst (auth_command F token)) = Inr (strip token)
     \<and> (token = [] \<or> (\<not> is_space (hd token) \<and> \<not> is_space (last token)) \<longrightarrow>
          load (fst (auth_command F token)) = Inr token)"
  using assms strip_trimmed [of token]
  by (auto simp: auth_command_def load_def io_defs strip_newline)

theorem auth_then_load_witness:
  "token_file (fst (auth_command old_fs (ascii ''ghp_0a1B''))) = Some (ascii ''ghp_0a1B'' @ [10])
   \<and> load (fst (auth_command old_fs (ascii ''ghp_0a1B''))) = Inr (ascii ''ghp_0a1B'')"
proof -
  have w: "writable old_fs" by (simp add: old_fs_def)
  have e: "utf8_encodable (ascii ''ghp_0a1B'')"
    by (simp add: utf8_encodable_def ascii_def)
  have t: "\<not> is_space (hd (ascii ''ghp_0a1B'')) \<and> \<not> is_space (last (ascii ''ghp_0a1B''))"
    by (simp add: ascii_def is_space_def)
  show ?thesis
    using auth_then_load [OF w e] t by blast
qed

text \<open>
  For a token that starts with a space the round trip does not give the token back:
  the file holds the token as written, and load returns it without the space. For a
  token that is one lone surrogate, U+DCFF, the write raises UnicodeEncodeError: the
  file is left empty, not the token and a newline, and no confirmation is printed.
\<close>

theorem auth_then_load_counterexample:
  "token_file (fst (auth_command old_fs (ascii '' abc''))) = Some (ascii '' abc'' @ [10])
   \<and> load (fst (auth_command old_fs (ascii '' abc''))) = Inr (ascii ''abc'')
   \<and> ascii ''abc'' \<noteq> ascii '' abc''
   \<and> token_file (fst (auth_command old_fs [0xDCFF])) = Some []
   \<and> snd (auth_command old_fs [0xDCFF]) = ([], Inl UnicodeEncodeError)"
  by (simp add: auth_command_def load_def old_fs_def strip_def is_space_def
        utf8_encodable_def io_defs ascii_def)

section \<open>Exceptions in the handlers\<close>

lemma list_raises:
  assumes "get_access_token E = Inr token"
  shows "http E (list_request E args token) = Inl e \<Longrightarrow>
           list_command E args = ([Http (list_request E args token)], Inl e)"
    and "http E (list_request E args token) = Inr r \<Longrightarrow> body r = None \<Longrightarrow>
           list_command E args = ([Http (list_request E args token)], Inl ValueError)"
  using assms by (simp_all add: list_command_def r_json_def io_defs)

lemma create_raises:
  assumes "get_access_token E = Inr token"
  shows "http E (create_request E args token) = Inl e \<Longrightarrow>
           create_command E args = ([Http (create_request E args token)], Inl e)"
    and "http E (create_request E args token) = Inr r \<Longrightarrow> status_code r \<noteq> 201 \<Longrightarrow>
         body r = None \<Longrightarrow>
           create_command E args = ([Http (create_request E args token)], Inl ValueError)"
  using assms by (simp_all add: create_command_def render_failure_undecoded io_defs)

lemma confirm_no_print: "filter is_print (fst (confirm q ls)) = []"
  by (induction ls) (auto simp: Let_def split: prod.splits)

lemma delete_reached_call:
  assumes "get_access_token E = Inr token"
      and "filter is_http (fst (delete_command E stdin args)) \<noteq> []"
  shows "\<exists>t. filter is_http t = [] \<and> filter is_print t = []
            \<and> delete_command E stdin args =
                (case http E (delete_request E args token) of
                   Inl e \<Rightarrow> (t @ [Http (delete_request E args token)], Inl e)
                 | Inr r \<Rightarrow>
                     (t @ Http (delete_request E args token)
                          # fst (delete_outcome (join (ascii '' '') (d_name args))
                                   (d_repo args) r),
                      Inr ()))"
proof (cases "d_force args")
  case True
  with assms(1) show ?thesis
    by (simp add: delete_command_def Let_def io_defs delete_outcome_def split: sum.splits)
next
  case False
  obtain t x where c: "confirm (delete_prompt (join (ascii '' '') (d_name args))) stdin = (t, x)"
    by (cases "confirm (delete_prompt (join (ascii '' '') (d_name args))) stdin")
  have quiet: "filter is_http t = []" "filter is_print t = []"
    using confirm_no_http [of "delete_prompt (join (ascii '' '') (d_name args))" stdin]
      confirm_no_print [of "delete_prompt (join (ascii '' '') (d_name args))" stdin] c
    by simp_all
  have "x = Inr True"
  proof (rule ccontr)
    assume "x \<noteq> Inr True"
    then have "fst (delete_command E stdin args) = t"
      using False c
      by (cases x) (auto simp: delete_command_def Let_def bnd_def ret_def)
    with quiet assms(2) show False by simp
  qed
  with quiet show ?thesis
    using assms(1) False c
    by (simp add: delete_command_def Let_def io_defs delete_outcome_def split: sum.splits)
qed

lemma list_error_object:
  assumes "get_access_token E = Inr token"
      and "http E (list_request E args token) = Inr r"
      and "body r = Some (JObj kvs)" and "kvs \<noteq> []"
  shows "list_command E args = ([Http (list_request E args token)], Inl TypeError)"
proof -
  from assms(4) obtain kv rest where kvs: "kvs = kv # rest" by (cases kvs) auto
  have "list_spacing (JObj kvs) = Inl TypeError"
    by (simp add: list_spacing_def ebind_def kvs)
  with assms show ?thesis
    by (simp add: list_command_def r_json_def io_defs)
qed

text \<open>
  C9, amended. The handlers catch no exception. With a stored token, an exception
  raised by the transmission of the request leaves list, create, update and delete as
  that exception (update once an option passed its test, delete once it reaches its
  request). A response body that is not JSON leaves list (for any status), create
  (status other than 201) and update (status other than 200) as ValueError, and a list
  response that decodes to an object with at least one key, as an error object does,
  leaves list as TypeError. In each of these cases no message is printed. Delete
  renders every response it receives: whatever the status, it prints one line after
  its request and returns.
\<close>

theorem handlers_do_not_catch:
  assumes "get_access_token E = Inr token"
  shows "(http E (list_request E largs token) = Inl e \<longrightarrow>
            list_command E largs = ([Http (list_request E largs token)], Inl e))
     \<and> (http E (list_request E largs token) = Inr r \<and> body r = None \<longrightarrow>
            list_command E largs = ([Http (list_request E largs token)], Inl ValueError))
     \<and> (http E (list_request E largs token) = Inr r \<and> body r = Some (JObj kvs)
          \<and> kvs \<noteq> [] \<longrightarrow>
            list_command E largs = ([Http (list_request E largs token)], Inl TypeError))
     \<and> (http E (create_request E cargs token) = Inl e \<longrightarrow>
            create_command E cargs = ([Http (create_request E cargs token)], Inl e))
     \<and> (http E (create_request E cargs token) = Inr r \<and> status_code r \<noteq> 201
          \<and> body r = None \<longrightarrow>
            create_command E cargs = ([Http (create_request E cargs token)], Inl ValueError))
     \<and> ((name_has_words uargs \<or> color_not_empty uargs) \<and> update_payload uargs = Inr p
          \<and> http E (update_request E uargs token p) = Inl e \<longrightarrow>
            update_command E uargs = ([Http (update_request E uargs token p)], Inl e))
     \<and> ((name_has_words uargs \<or> color_not_empty uargs) \<and> update_payload uargs = Inr p
          \<and> http E (update_request E uargs token p) = Inr r \<and> status_code r \<noteq> 200
          \<and> body r = None \<longrightarrow>
            update_command E uargs = ([Http (update_request E uargs token p)], Inl ValueError))
     \<and> (filter is_http (fst (delete_command E stdin dargs)) \<noteq> []
          \<and> http E (delete_request E dargs token) = Inl e \<longrightarrow>
            (\<exists>t. filter is_http t = [] \<and> filter is_print t = []
               \<and> delete_command E stdin dargs =
                   (t @ [Http (delete_request E dargs token)], Inl e)))
     \<and> (filter is_http (fst (delete_command E stdin dargs)) \<noteq> []
          \<and> http E (delete_request E dargs token) = Inr r \<longrightarrow>
            (\<exists>t line. filter is_http t = [] \<and> filter is_print t = []
               \<and> delete_command E stdin dargs =
                   (t @ [Http (delete_request E dargs token), Print line], Inr ())))"
proof -
  note l = list_raises [OF assms, of largs]
  have l3: "http E (list_request E largs token) = Inr r \<and> body r = Some (JObj kvs)
          \<and> kvs \<noteq> [] \<longrightarrow>
            list_command E largs = ([Http (list_request E largs token)], Inl TypeError)"
    using list_error_object [OF assms] by blast
  note c = create_raises [OF assms, of cargs]
  have u1: "(name_has_words uargs \<or> color_not_empty uargs) \<and> update_payload uargs = Inr p
          \<and> http E (update_request E uargs token p) = Inl e \<longrightarrow>
            update_command E uargs = ([Http (update_request E uargs token p)], Inl e)"
    using update_run [of uargs E token p] assms by auto
  have u2: "(name_has_words uargs \<or> color_not_empty uargs) \<and> update_payload uargs = Inr p
          \<and> http E (update_request E uargs token p) = Inr r \<and> status_code r \<noteq> 200
          \<and> body r = None \<longrightarrow>
            update_command E uargs = ([Http (update_request E uargs token p)], Inl ValueError)"
    using update_run [of uargs E token p] assms
    by (auto simp: render_failure_undecoded)
  have d1: "filter is_http (fst (delete_command E stdin dargs)) \<noteq> []
          \<and> http E (delete_request E dargs token) = Inl e \<longrightarrow>
            (\<exists>t. filter is_http t = [] \<and> filter is_print t = []
               \<and> delete_command E stdin dargs =
                   (t @ [Http (delete_request E dargs token)], Inl e))"
    using delete_reached_call [OF assms, of stdin dargs] by auto
  have d2: "filter is_http (fst (delete_command E stdin dargs)) \<noteq> []
          \<and> http E (delete_request E dargs token) = Inr r \<longrightarrow>
            (\<exists>t line. filter is_http t = [] \<and> filter is_print t = []
               \<and> delete_command E stdin dargs =
                   (t @ [Http (delete_request E dargs token), Print line], Inr ()))"
  proof (intro impI, elim conjE)
    assume h: "filter is_http (fst (delete_command E stdin dargs)) \<noteq> []"
       and r: "http E (delete_request E dargs token) = Inr r"
    from delete_reached_call [OF assms h] r obtain t where
      t: "filter is_http t = []" "filter is_print t = []"
         "delete_command E stdin dargs =
            (t @ Http (delete_request E dargs token)
                 # fst (delete_outcome (join (ascii '' '') (d_name dargs)) (d_repo dargs) r),
             Inr ())"
      by auto
    have "\<exists>line.
      fst (delete_outcome (join (ascii '' '') (d_name dargs)) (d_repo dargs) r) = [Print line]"
      by (simp add: delete_outcome_def io_defs)
    with t show "\<exists>t line. filter is_http t = [] \<and> filter is_print t = []
               \<and> delete_command E stdin dargs =
                   (t @ [Http (delete_request E dargs token), Print line], Inr ())"
      by auto
  qed
  from l l3 c u1 u2 d1 d2 show ?thesis by blast
qed

theorem handlers_do_not_catch_witness:
  "list_command (demo_env offline) demo_list =
     ([Http (list_request (demo_env offline) demo_list (ascii ''t0k3n''))],
      Inl ConnectionError)
   \<and> list_command (demo_env (always 502 None)) demo_list =
     ([Http (list_request (demo_env (always 502 None)) demo_list (ascii ''t0k3n''))],
      Inl ValueError)
   \<and> list_command (demo_env (always 401 (Some bad_credentials))) demo_list =
     ([Http (list_request (demo_env (always 401 (Some bad_credentials))) demo_list
               (ascii ''t0k3n''))],
      Inl TypeError)
   \<and> (\<exists>t. filter is_print t = []
         \<and> delete_command (demo_env offline) [ascii ''yes''] (bug_args False) =
             (t @ [Http (delete_request (demo_env offline) (bug_args False) (ascii ''t0k3n''))],
              Inl ConnectionError))"
proof -
  have off: "http (demo_env offline) rq = Inl ConnectionError" for rq
    by (simp add: demo_env_def offline_def)
  have rsp: "http (demo_env (always st b)) rq = Inr \<lparr> status_code = st, body = b \<rparr>"
    for st b rq
    by (simp add: demo_env_def always_def)
  have reached: "filter is_http
      (fst (delete_command (demo_env offline) [ascii ''yes''] (bug_args False))) \<noteq> []"
    by (simp add: delete_command_def Let_def bug_args_def demo_env_def offline_def io_defs
          lower_def lower_cp_def ascii_def)
  note T = handlers_do_not_catch [where token = "ascii ''t0k3n''" and largs = demo_list]
  have a: "list_command (demo_env offline) demo_list =
     ([Http (list_request (demo_env offline) demo_list (ascii ''t0k3n''))],
      Inl ConnectionError)"
    using T [where E = "demo_env offline" and e = ConnectionError]
    by (simp add: off demo_token)
  have b: "list_command (demo_env (always 502 None)) demo_list =
     ([Http (list_request (demo_env (always 502 None)) demo_list (ascii ''t0k3n''))],
      Inl ValueError)"
    using T [where E = "demo_env (always 502 None)"
        and r = "\<lparr> status_code = 502, body = None \<rparr>"]
    by (simp add: rsp demo_token)
  have c: "list_command (demo_env (always 401 (Some bad_credentials))) demo_list =
     ([Http (list_request (demo_env (always 401 (Some bad_credentials))) demo_list
               (ascii ''t0k3n''))],
      Inl TypeError)"
    using T [where E = "demo_env (always 401 (Some bad_credentials))"
        and r = "\<lparr> status_code = 401, body = Some bad_credentials \<rparr>"
        and kvs = "[(ascii ''message'', JStr (ascii ''Bad credentials''))]"]
    by (simp add: rsp bad_credentials_def demo_token)
  have d: "\<exists>t. filter is_print t = []
         \<and> delete_command (demo_env offline) [ascii ''yes''] (bug_args False) =
             (t @ [Http (delete_request (demo_env offline) (bug_args False) (ascii ''t0k3n''))],
              Inl ConnectionError)"
    using T [where E = "demo_env offline" and e = ConnectionError
        and stdin = "[ascii ''yes'']" and dargs = "bug_args False"
        and cargs = bug_label and uargs = "update_demo None None" and p = "[]"] reached
    by (simp add: off demo_token) blast
  from a b c d show ?thesis by blast
qed

text \<open>
  Nothing is caught at the handler: when the network is down, and when the server
  answers with a body that is not JSON, create leaves with the exception and prints
  nothing.
\<close>

theorem handlers_do_not_catch_counterexample:
  "create_command (demo_env offline) bug_label =
     ([Http (create_request (demo_env offline) bug_label (ascii ''t0k3n''))],
      Inl ConnectionError)
   \<and> filter is_print (fst (create_command (demo_env offline) bug_label)) = []
   \<and> create_command (demo_env (always 502 None)) bug_label =
     ([Http (create_request (demo_env (always 502 None)) bug_label (ascii ''t0k3n''))],
      Inl ValueError)
   \<and> filter is_print (fst (create_command (demo_env (always 502 None)) bug_label)) = []"
  by (simp add: create_command_def render_failure_def r_json_def demo_env_def offline_def
        always_def io_defs)

section \<open>The failure line of delete\<close>

text \<open>
  C10. When a delete invocation reaches the network call and the status of the
  response is neither 204 nor 404, the line printed is the cross mark followed by
  \<open>Failed to create label.\<close>: the text says create, and it is the very line that
  create prints for a response that is not 201 and reports no validation error.
\<close>

theorem delete_failure_line_says_create:
  assumes "get_access_token E = Inr token"
      and "http E (delete_request E args token) = Inr r"
      and "filter is_http (fst (delete_command E stdin args)) \<noteq> []"
      and "status_code r \<noteq> 204" and "status_code r \<noteq> 404"
      and "get_access_token E' = Inr token'"
      and "http E' (create_request E' cargs token') = Inr r'"
      and "status_code r' \<noteq> 201" and "body r' = Some (JObj [])"
  shows "\<exists>t. delete_command E stdin args =
                (t @ [Http (delete_request E args token),
                      Print (0x274C # ascii ''  Failed to create label.'')], Inr ())
            \<and> create_command E' cargs =
                ([Http (create_request E' cargs token'),
                  Print (0x274C # ascii ''  Failed to create label.'')], Inr ())"
proof -
  have "collect_errors E' (join (ascii '' '') (c_name cargs)) (JObj []) = Inr []"
    by (simp add: collect_errors_def ebind_def ascii_def)
  then have "create_command E' cargs =
                ([Http (create_request E' cargs token'),
                  Print (0x274C # ascii ''  Failed to create label.'')], Inr ())"
    using assms(6-9) by (simp add: create_run render_failure_generic)
  moreover obtain t where "delete_command E stdin args =
                (t @ Http (delete_request E args token)
                     # fst (delete_outcome (join (ascii '' '') (d_name args)) (d_repo args) r),
                 Inr ())"
    using delete_reached [OF assms(1-3)] by blast
  ultimately show ?thesis
    using assms(4,5) by (simp add: delete_outcome_def io_defs)
qed

theorem delete_failure_line_says_create_witness:
  "delete_command (demo_env (always 500 (Some (JObj [])))) [] (bug_args True) =
     ([Http (delete_request (demo_env (always 500 (Some (JObj [])))) (bug_args True)
               (ascii ''t0k3n'')),
       Print (0x274C # ascii ''  Failed to create label.'')], Inr ())
   \<and> create_command (demo_env (always 500 (Some (JObj [])))) bug_label =
     ([Http (create_request (demo_env (always 500 (Some (JObj [])))) bug_label
               (ascii ''t0k3n'')),
       Print (0x274C # ascii ''  Failed to create label.'')], Inr ())"
proof -
  let ?E = "demo_env (always 500 (Some (JObj [])))"
  have d: "http ?E (delete_request ?E (bug_args True) (ascii ''t0k3n''))
             = Inr \<lparr> status_code = 500, body = Some (JObj []) \<rparr>"
    by (simp add: demo_env_def always_def)
  have c: "http ?E (create_request ?E bug_label (ascii ''t0k3n''))
             = Inr \<lparr> status_code = 500, body = Some (JObj []) \<rparr>"
    by (simp add: demo_env_def always_def)
  have run: "fst (delete_command ?E [] (bug_args True)) =
      Http (delete_request ?E (bug_args True) (ascii ''t0k3n''))
        # fst (delete_outcome (join (ascii '' '') (d_name (bug_args True)))
                 (d_repo (bug_args True)) \<lparr> status_code = 500, body = Some (JObj []) \<rparr>)"
    using d by (simp add: delete_command_def Let_def bug_args_def io_defs demo_token
          delete_outcome_def)
  have reached: "filter is_http (fst (delete_command ?E [] (bug_args True))) \<noteq> []"
    by (simp add: run)
  from delete_failure_line_says_create [OF demo_token d reached _ _ demo_token c]
  obtain t where t: "delete_command ?E [] (bug_args True) =
       (t @ [Http (delete_request ?E (bug_args True) (ascii ''t0k3n'')),
             Print (0x274C # ascii ''  Failed to create label.'')], Inr ())"
    and "create_command ?E bug_label =
     ([Http (create_request ?E bug_label (ascii ''t0k3n'')),
       Print (0x274C # ascii ''  Failed to create label.'')], Inr ())"
    by auto
  moreover from t run have "t = []"
    by (cases t) (simp_all add: delete_outcome_def io_defs)
  ultimately show ?thesis by simp
qed

end
